theory Spec2Isabelle
  imports Main "HOL-Library.Word" "HOL-Library.Multiset"
begin

unbundle bit_operations_syntax

section \<open>Machine integers and byte decoding\<close>

type_synonym u8 = "8 word"
type_synonym u16 = "16 word"
type_synonym u32 = "32 word"
type_synonym u64 = "64 word"

text \<open>
  A byte region is a list of bytes. \<open>le_nat\<close> is the value of a little-endian byte string,
  \<open>be_nat\<close> of a big-endian one; the fixed-width decoders cut it to the width of the type.
\<close>

fun le_nat :: "u8 list \<Rightarrow> nat" where
  "le_nat [] = 0"
| "le_nat (b # bs) = unat b + 256 * le_nat bs"

definition be_nat :: "u8 list \<Rightarrow> nat" where
  "be_nat bs = le_nat (rev bs)"

definition le16 :: "u8 list \<Rightarrow> u16" where
  "le16 bs = of_nat (le_nat (take 2 bs))"

definition le32 :: "u8 list \<Rightarrow> u32" where
  "le32 bs = of_nat (le_nat (take 4 bs))"

definition le64 :: "u8 list \<Rightarrow> u64" where
  "le64 bs = of_nat (le_nat (take 8 bs))"

definition be16 :: "u8 list \<Rightarrow> u16" where
  "be16 bs = of_nat (be_nat (take 2 bs))"

section \<open>PE: sections and the RVA lookup (include/bela/pe.hpp)\<close>

text \<open>
  \<open>struct DataDirectory\<close> and \<open>struct Section\<close> of pe.hpp. The relocation list of a section
  plays no role in the functions below and is left out. The fields of \<open>DataDirectory\<close> carry
  the prefix \<open>dd_\<close>, since both structs have a \<open>VirtualAddress\<close> and a \<open>Size\<close>.
\<close>

record DataDirectory =
  dd_VirtualAddress :: u32
  dd_Size :: u32

record Section =
  Name :: string
  VirtualSize :: u32
  VirtualAddress :: u32
  Size :: u32
  Offset :: u32
  PointerToRelocations :: u32
  PointerToLineNumbers :: u32
  NumberOfRelocations :: u16
  NumberOfLineNumbers :: u16
  Characteristics :: u32

text \<open>
  \<open>File::getSection(const DataDirectory *dd)\<close>: the range-based \<open>for\<close> over \<open>sections\<close>
  returns the address of the first section that passes the test, \<open>nullptr\<close> (here \<open>None\<close>)
  after the loop. All three operands are \<open>uint32_t\<close>, so the sum
  \<open>s.VirtualAddress + s.VirtualSize\<close> is taken modulo \<open>2\<^sup>3\<^sup>2\<close>, as \<open>+\<close> on \<open>32 word\<close> is.
\<close>

fun getSection :: "Section list \<Rightarrow> DataDirectory \<Rightarrow> Section option" where
  "getSection [] dd = None"
| "getSection (s # ss) dd =
     (if VirtualAddress s \<le> dd_VirtualAddress dd
         \<and> dd_VirtualAddress dd < VirtualAddress s + VirtualSize s
      then Some s
      else getSection ss dd)"

text \<open>
  The half-open range \<open>[VirtualAddress, VirtualAddress + VirtualSize)\<close> of a section, as a
  range of numbers (no wrap-around).
\<close>

definition in_section_range :: "u32 \<Rightarrow> Section \<Rightarrow> bool" where
  "in_section_range rva s \<longleftrightarrow>
     unat (VirtualAddress s) \<le> unat rva
     \<and> unat rva < unat (VirtualAddress s) + unat (VirtualSize s)"

text \<open>A section whose end \<open>VirtualAddress + VirtualSize\<close> still fits into 32 bits.\<close>

definition section_end_fits :: "Section \<Rightarrow> bool" where
  "section_end_fits s \<longleftrightarrow> unat (VirtualAddress s) + unat (VirtualSize s) < 2 ^ 32"

definition mk_section :: "u32 \<Rightarrow> u32 \<Rightarrow> u32 \<Rightarrow> u32 \<Rightarrow> Section" where
  "mk_section va vsize off sz =
     \<lparr>Name = ''.sec'', VirtualSize = vsize, VirtualAddress = va, Size = sz, Offset = off,
      PointerToRelocations = 0, PointerToLineNumbers = 0, NumberOfRelocations = 0,
      NumberOfLineNumbers = 0, Characteristics = 0\<rparr>"

section \<open>Outcomes\<close>

text \<open>
  The sources report a failure through a \<open>bela::error_code\<close> (a code and a message) and a
  \<open>false\<close>, \<open>nullptr\<close> or \<open>std::nullopt\<close> result. The model returns \<open>Inl e\<close>, with one
  constructor for each place that builds an error:
  \<^item> \<open>IOError\<close>: a system or C library error of a seek or a read, the unexpected end of
    the file included;
  \<^item> \<open>InvalidPESignature\<close>: \<open>"Invalid PE COFF file signature of [...]"\<close>, with the
    four bytes found;
  \<^item> \<open>TableError\<close>: \<open>readStringTable\<close> or \<open>readCOFFSymbols\<close> failed;
  \<^item> \<open>NoOverlay\<close>: code \<open>ErrNoOverlay\<close> (\<open>0xFF01\<close>), \<open>"no overlay data"\<close>;
  \<^item> \<open>OverlayOverLimit\<close>: code \<open>ErrGeneral\<close>, \<open>"overlay data size large over limit"\<close>;
  \<^item> \<open>NotValidZip\<close>: \<open>"zip: not a valid zip file"\<close>;
  \<^item> \<open>InvalidCommentLength\<close>: \<open>"zip: invalid comment length"\<close>;
  \<^item> \<open>ImpossibleTOC n size\<close>: \<open>"zip: TOC declares impossible n files in size byte zip"\<close>.
\<close>

datatype error =
    IOError
  | InvalidPESignature "u8 list"
  | TableError
  | NoOverlay
  | OverlayOverLimit
  | NotValidZip
  | InvalidCommentLength
  | ImpossibleTOC u64 int

text \<open>
  A read through a raw pointer has no defined result in C++ when it touches a byte outside
  the buffer. The model makes that outcome explicit: \<open>Value v\<close> is a read (or a refusal to
  read) with result \<open>v\<close>, \<open>OutOfBounds\<close> is a read that left the buffer.
\<close>

datatype 'a access = Value 'a | OutOfBounds

text \<open>The \<open>n\<close> bytes at \<open>off\<close>, when all of them lie inside the region.\<close>

definition bytes_at :: "u8 list \<Rightarrow> nat \<Rightarrow> nat \<Rightarrow> u8 list option" where
  "bytes_at region off n =
     (if off + n \<le> length region then Some (take n (drop off region)) else None)"

section \<open>PE: the section buffer (include/bela/pe.hpp, internal/image.hpp)\<close>

text \<open>
  \<open>class SectionBuffer\<close> holds \<open>std::vector<char> rawdata\<close>; the model is the byte list.
  Offsets are \<open>size_t\<close>: the model takes them as natural numbers below \<open>2\<^sup>6\<^sup>4\<close> and writes
  the wrap-around of \<open>offset + n\<close> out.

  \<open>SectionBuffer::function_hit\<close> as pe.hpp has it:
  \<^verbatim>\<open>if (offset + 2 < rawdata.size()) { return 0; }
  return bela::cast_frombe<uint16_t>(rawdata.data() + offset);\<close>
  \<open>bela::cast_frombe<uint16_t>(p)\<close> (bela/endian.hpp) reads the two bytes at \<open>p\<close> as a
  big-endian value, with no check of its own.
\<close>

definition function_hit :: "u8 list \<Rightarrow> nat \<Rightarrow> u16 access" where
  "function_hit rawdata offset =
     (if (offset + 2) mod 2 ^ 64 < length rawdata then Value 0
      else (case bytes_at rawdata offset 2 of
              None \<Rightarrow> OutOfBounds
            | Some bs \<Rightarrow> Value (be16 bs)))"

text \<open>
  The same member in the later revision of the class (internal/image.hpp), where the test
  is \<open>offset + 2 > rawdata.size()\<close>.
\<close>

definition function_hit_image :: "u8 list \<Rightarrow> nat \<Rightarrow> u16 access" where
  "function_hit_image rawdata offset =
     (if (offset + 2) mod 2 ^ 64 > length rawdata then Value 0
      else (case bytes_at rawdata offset 2 of
              None \<Rightarrow> OutOfBounds
            | Some bs \<Rightarrow> Value (be16 bs)))"

text \<open>
  \<open>SectionBuffer::direct_cast<T>\<close>, with \<open>n = sizeof(T)\<close>: \<open>nullptr\<close> (here \<open>Value None\<close>)
  when \<open>offset + sizeof(T) > rawdata.size()\<close>, else a pointer to the \<open>n\<close> bytes at
  \<open>offset\<close>, which the caller then reads.
\<close>

definition direct_cast :: "nat \<Rightarrow> u8 list \<Rightarrow> nat \<Rightarrow> u8 list option access" where
  "direct_cast n rawdata offset =
     (if (offset + n) mod 2 ^ 64 > length rawdata then Value None
      else (case bytes_at rawdata offset n of
              None \<Rightarrow> OutOfBounds
            | Some bs \<Rightarrow> Value (Some bs)))"

section \<open>PE: opening a file (src/belawin/pe/file.cc)\<close>

text \<open>
  \<open>struct FileHeader\<close> (20 bytes, packed). \<open>swaple\<close> turns every field into the value of
  its little-endian bytes on any host. The field \<open>Characteristics\<close> carries the prefix
  \<open>fh_\<close>, since \<open>Section\<close> has one of that name.
\<close>

record FileHeader =
  Machine :: u16
  NumberOfSections :: u16
  TimeDateStamp :: u32
  PointerToSymbolTable :: u32
  NumberOfSymbols :: u32
  SizeOfOptionalHeader :: u16
  fh_Characteristics :: u16

definition decode_FileHeader :: "u8 list \<Rightarrow> FileHeader" where
  "decode_FileHeader b =
     \<lparr>Machine = le16 b, NumberOfSections = le16 (drop 2 b), TimeDateStamp = le32 (drop 4 b),
      PointerToSymbolTable = le32 (drop 8 b), NumberOfSymbols = le32 (drop 12 b),
      SizeOfOptionalHeader = le16 (drop 16 b), fh_Characteristics = le16 (drop 18 b)\<rparr>"

text \<open>
  \<open>sizeof(DosHeader)\<close>, \<open>sizeof(FileHeader)\<close> and \<open>sizeof(OptionalHeader64)\<close> under
  \<open>#pragma pack(1)\<close>: 30 16-bit words and \<open>e_lfanew\<close>; the seven fields above; and
  \<open>2 + 1 + 1 + 5 * 4 + 8 + 2 * 4 + 6 * 2 + 4 * 4 + 2 * 2 + 4 * 8 + 2 * 4 + 16 * 8\<close>.
  \<open>IMAGE_DOS_SIGNATURE\<close> is \<open>MZ\<close>.
\<close>

definition sizeof_DosHeader :: nat where
  "sizeof_DosHeader = 64"

definition sizeof_FileHeader :: nat where
  "sizeof_FileHeader = 20"

definition sizeof_OptionalHeader64 :: nat where
  "sizeof_OptionalHeader64 = 240"

definition IMAGE_DOS_SIGNATURE :: u16 where
  "IMAGE_DOS_SIGNATURE = 0x5A4D"

text \<open>What \<open>File::NewFile\<close> of file.cc fills in: the file header and the 64-bit flag.\<close>

record NewFile_result =
  fh :: FileHeader
  is64bit :: bool

text \<open>
  The first half of \<open>File::NewFile\<close>: read the DOS header, and when its magic is \<open>MZ\<close>
  follow \<open>e_lfanew\<close> (at \<open>0x3c\<close>) to the signature \<open>PE\0\0\<close>; the result is \<open>base\<close>, the
  offset of the COFF file header (0 for a file without \<open>MZ\<close>). \<open>fread\<close> of fewer bytes than
  asked is the failure.
\<close>

definition coff_base :: "u8 list \<Rightarrow> error + nat" where
  "coff_base file =
     (case bytes_at file 0 sizeof_DosHeader of
        None \<Rightarrow> Inl IOError
      | Some dh \<Rightarrow>
          if le16 dh = IMAGE_DOS_SIGNATURE then
            (let signoff = unat (le32 (drop 60 dh)) in
             case bytes_at file signoff 4 of
               None \<Rightarrow> Inl IOError
             | Some sign \<Rightarrow>
                 if \<not> (sign ! 0 = 0x50 \<and> sign ! 1 = 0x45 \<and> sign ! 2 = 0 \<and> sign ! 3 = 0)
                 then Inl (InvalidPESignature sign)
                 else Inr (signoff + 4))
          else Inr 0)"

text \<open>
  The second half: read the file header at \<open>base\<close>, set
  \<open>is64bit = (fh.SizeOfOptionalHeader == sizeof(OptionalHeader64))\<close>, then read the string
  table and the COFF symbols. \<open>readStringTable\<close> and \<open>readCOFFSymbols\<close> are not in the
  sources; they are parameters that say whether the read succeeded.
\<close>

definition NewFile ::
  "(FileHeader \<Rightarrow> u8 list \<Rightarrow> bool) \<Rightarrow> (FileHeader \<Rightarrow> u8 list \<Rightarrow> bool) \<Rightarrow> u8 list
   \<Rightarrow> error + NewFile_result" where
  "NewFile readStringTable readCOFFSymbols file =
     (case coff_base file of
        Inl e \<Rightarrow> Inl e
      | Inr base \<Rightarrow>
          (case bytes_at file base sizeof_FileHeader of
             None \<Rightarrow> Inl IOError
           | Some b \<Rightarrow>
               (let h = decode_FileHeader b;
                    r = \<lparr>fh = h,
                         is64bit = (unat (SizeOfOptionalHeader h) = sizeof_OptionalHeader64)\<rparr>
                in if \<not> readStringTable h file then Inl TableError
                   else if \<not> readCOFFSymbols h file then Inl TableError
                   else Inr r)))"

text \<open>
  The magic of the optional header: the 16-bit value that follows the 20-byte COFF file
  header in the file.
\<close>

definition optional_magic :: "u8 list \<Rightarrow> u16 option" where
  "optional_magic file =
     (case coff_base file of
        Inl e \<Rightarrow> None
      | Inr base \<Rightarrow> map_option le16 (bytes_at file (base + sizeof_FileHeader) 2))"

text \<open>
  Two sample images: a DOS header with \<open>e_lfanew = 64\<close>, the signature, a file header for
  machine \<open>0x8664\<close> and an optional header of zeros behind its magic. The first declares an
  optional header of 224 bytes and has the magic \<open>0x20b\<close>; the second declares 240 bytes
  and has the magic \<open>0x10b\<close>.
\<close>

definition pe_sample :: "u8 \<Rightarrow> u8 \<Rightarrow> u8 list" where
  "pe_sample optsize magic_hi =
     [0x4D, 0x5A] @ replicate 58 0 @ [0x40, 0, 0, 0] @ [0x50, 0x45, 0, 0]
     @ [0x64, 0x86, 0, 0, 0, 0, 0, 0, 0, 0, 0, 0, 0, 0, 0, 0, optsize, 0, 0x22, 0]
     @ [0x0B, magic_hi] @ replicate 238 0"

section \<open>PE: the overlay (LookupOverlay)\<close>

text \<open>
  Modelled from the spec: the struct behind \<open>sec.Header\<close>, under which a section keeps its
  header fields in this revision, is not in the sources. Section 3 gives a section its raw
  file offset and size. Every declaration of the two in the sources is a \<open>uint32_t\<close>:
  \<open>Offset\<close> and \<open>Size\<close> of \<open>struct Section\<close> in pe.hpp and in internal/image.hpp,
  \<open>PointerToRawData\<close> and \<open>SizeOfRawData\<close> of \<open>SectionHeader32\<close>, from which they are read.
  So they are here: the fields of \<open>Section\<close> above.
\<close>

text \<open>
  The members of \<open>class File\<close> that \<open>LookupOverlay\<close> reads: the file behind \<open>fd\<close> (its
  bytes), \<open>size\<close> and \<open>sections\<close>.
\<close>

record pe_File =
  pe_fd :: "u8 list"
  pe_size :: int
  sections :: "Section list"

definition LimitOverlaySize :: int where
  "LimitOverlaySize = 64 * 1024 * 1024"

text \<open>
  The loop over \<open>sections\<close>. \<open>sec.Header.Offset + sec.Header.Size\<close> is a sum of two
  \<open>uint32_t\<close>, taken modulo \<open>2\<^sup>3\<^sup>2\<close> before \<open>static_cast<int64_t>\<close> widens it.
\<close>

fun overlayStart_loop :: "Section list \<Rightarrow> int \<Rightarrow> int" where
  "overlayStart_loop [] overlayStart = overlayStart"
| "overlayStart_loop (sec # secs) overlayStart =
     (let sectionEnd = uint (Offset sec + Size sec)
      in overlayStart_loop secs (if sectionEnd > overlayStart then sectionEnd else overlayStart))"

text \<open>
  \<open>PositionAt\<close> followed by \<open>ReadFull\<close>: the \<open>len\<close> bytes at \<open>pos\<close>, or the error of a file
  that ends before \<open>len\<close> bytes were read (\<open>ReadFull\<close> of pe.hpp: a read of zero bytes is
  \<open>ERROR_HANDLE_EOF\<close>).
\<close>

definition ReadFull_at :: "u8 list \<Rightarrow> int \<Rightarrow> int \<Rightarrow> error + u8 list" where
  "ReadFull_at file pos len =
     (if 0 \<le> pos \<and> 0 \<le> len then
        (case bytes_at file (nat pos) (nat len) of None \<Rightarrow> Inl IOError | Some bs \<Rightarrow> Inr bs)
      else Inl IOError)"

definition LookupOverlay :: "pe_File \<Rightarrow> int \<Rightarrow> error + u8 list" where
  "LookupOverlay f limitsize =
     (let overlayStart = overlayStart_loop (sections f) 0;
          overlayLen = pe_size f - overlayStart
      in if overlayLen \<le> 0 then Inl NoOverlay
         else if overlayLen > limitsize then Inl OverlayOverLimit
         else ReadFull_at (pe_fd f) overlayStart overlayLen)"

text \<open>
  The end of a section's raw data as a number, \<open>Offset + Size\<close> without wrap-around, and
  the sections for which the 32-bit sum is that number.
\<close>

definition raw_end :: "Section \<Rightarrow> int" where
  "raw_end s = uint (Offset s) + uint (Size s)"

definition raw_end_fits :: "Section \<Rightarrow> bool" where
  "raw_end_fits s \<longleftrightarrow> raw_end s < 2 ^ 32"

text \<open>The largest \<open>raw_end\<close> of a section list, 0 for the empty list.\<close>

definition max_raw_end :: "Section list \<Rightarrow> int" where
  "max_raw_end secs = Max (insert 0 (raw_end ` set secs))"

text \<open>Sample files for the overlay: 64 bytes, the last four of them \<open>1, 2, 3, 4\<close>.\<close>

definition overlay_sample :: "Section list \<Rightarrow> pe_File" where
  "overlay_sample secs = \<lparr>pe_fd = replicate 60 0 @ [1, 2, 3, 4], pe_size = 64, sections = secs\<rparr>"

section \<open>ZIP: the byte source and the cursor\<close>

text \<open>
  The members of \<open>hazel::zip::Reader\<close> that the directory decoder reads: the file behind
  \<open>fd\<close> (its bytes) and \<open>size\<close>.
\<close>

record Reader =
  zip_fd :: "u8 list"
  zip_size :: int

text \<open>
  Modelled from the spec: \<open>Reader::ReadAt\<close> and \<open>Reader::PositionAt\<close> are declared in
  hazel/zip.hpp, which is not in the sources. Section 6: seek to an absolute offset, then
  read exactly N bytes or report the short read. \<open>ReadAt\<close> of the Mach-O reader in the
  sources is the same: \<open>PositionAt\<close>, \<open>ReadFull\<close>, \<open>buffer.size() = len\<close>.
\<close>

definition ReadAt :: "Reader \<Rightarrow> int \<Rightarrow> int \<Rightarrow> error + u8 list" where
  "ReadAt r len pos = ReadFull_at (zip_fd r) pos len"

text \<open>
  Modelled from the spec: \<open>bela::endian::LittenEndian\<close> (bela/endian.hpp) is not in the
  sources. It is a cursor over a byte region, and the model is the list of the bytes from
  the cursor to the end of the region. As the decoder uses it: \<open>Size()\<close> is the number of
  bytes left; \<open>Read<T>()\<close> decodes the next \<open>sizeof(T)\<close> bytes as a little-endian value
  and moves past them; \<open>Pick()\<close> does so for one byte; \<open>Discard(n)\<close> moves past \<open>n\<close>
  bytes; \<open>Sub(n)\<close> is a cursor over the next \<open>n\<close> bytes, past which the cursor moves;
  \<open>Data()\<close> is the position of the cursor. Every \<open>Read\<close> below is applied where enough
  bytes are left, but for the last one of \<open>readDirectory64End\<close>.
\<close>

definition Pick :: "u8 list \<Rightarrow> u8 \<times> u8 list" where
  "Pick b = (of_nat (le_nat (take 1 b)), drop 1 b)"

definition Read16 :: "u8 list \<Rightarrow> u16 \<times> u8 list" where
  "Read16 b = (le16 b, drop 2 b)"

definition Read32 :: "u8 list \<Rightarrow> u32 \<times> u8 list" where
  "Read32 b = (le32 b, drop 4 b)"

definition Read64 :: "u8 list \<Rightarrow> u64 \<times> u8 list" where
  "Read64 b = (le64 b, drop 8 b)"

definition Discard :: "nat \<Rightarrow> u8 list \<Rightarrow> u8 list" where
  "Discard n b = drop n b"

definition Sub :: "nat \<Rightarrow> u8 list \<Rightarrow> u8 list \<times> u8 list" where
  "Sub n b = (take n b, drop n b)"

section \<open>ZIP: the end of the central directory (src/hazel/zip/zip.cc)\<close>

definition directoryHeaderSignature :: u32 where
  "directoryHeaderSignature = 0x02014b50"

definition directory64LocSignature :: u32 where
  "directory64LocSignature = 0x07064b50"

definition directory64EndSignature :: u32 where
  "directory64EndSignature = 0x06064b50"

definition fileHeaderLen :: nat where
  "fileHeaderLen = 30"

definition directoryHeaderLen :: nat where
  "directoryHeaderLen = 46"

definition directoryEndLen :: nat where
  "directoryEndLen = 22"

definition directory64LocLen :: nat where
  "directory64LocLen = 20"

definition directory64EndLen :: nat where
  "directory64EndLen = 56"

text \<open>
  The test of one position in \<open>findSignatureInBlock\<close>: the four signature bytes
  \<open>P K 05 06\<close> at \<open>i\<close>, and the comment length \<open>n\<close> in the last two bytes of the record
  with \<open>n + directoryEndLen + i <= b.size()\<close>. The loop only calls it with
  \<open>i + directoryEndLen <= b.size()\<close>.
\<close>

definition sig_ok :: "u8 list \<Rightarrow> nat \<Rightarrow> bool" where
  "sig_ok b i \<longleftrightarrow>
     b ! i = 0x50 \<and> b ! (i + 1) = 0x4b \<and> b ! (i + 2) = 0x05 \<and> b ! (i + 3) = 0x06
     \<and> (let n = uint (b ! (i + directoryEndLen - 2))
                 OR push_bit 8 (uint (b ! (i + directoryEndLen - 1)))
        in n + int directoryEndLen + int i \<le> int (length b))"

text \<open>The loop of \<open>findSignatureInBlock\<close>, from position \<open>i\<close> down to 0; \<open>-1\<close> when it ends.\<close>

fun findSignatureInBlock_from :: "u8 list \<Rightarrow> nat \<Rightarrow> int" where
  "findSignatureInBlock_from b 0 = (if sig_ok b 0 then 0 else - 1)"
| "findSignatureInBlock_from b (Suc i) =
     (if sig_ok b (Suc i) then int (Suc i) else findSignatureInBlock_from b i)"

definition findSignatureInBlock :: "u8 list \<Rightarrow> int" where
  "findSignatureInBlock b =
     (if int (length b) - int directoryEndLen < 0 then - 1
      else findSignatureInBlock_from b (length b - directoryEndLen))"

text \<open>
  Modelled from the spec: \<open>struct directoryEnd\<close> is declared in hazel/zip.hpp, which is not
  in the sources. Its fields are those the decoder assigns (section 3, ZipDirectoryEnd),
  as wide as the Zip64 record's, which \<open>readDirectory64End\<close> stores into them.
\<close>

record directoryEnd =
  diskNbr :: u32
  dirDiskNbr :: u32
  dirRecordsThisDisk :: u64
  directoryRecords :: u64
  directorySize :: u64
  directoryOffset :: u64
  commentLen :: u16
  comment :: "u8 list"

text \<open>
  \<open>Reader::readDirectory64End\<close>. After the signature (4 bytes) the cursor discards 16
  bytes and then reads 4 + 4 + 8 + 8 + 8 + 8 bytes from a buffer of
  \<open>directory64EndLen = 56\<close>; no test follows the one of the signature. The last
  \<open>Read<uint64_t>\<close> starts at byte 52 of the buffer: its upper four bytes are taken from
  the memory behind the buffer, which the function does not own. What that memory holds
  is the argument \<open>behind\<close> of the model, the bytes that follow the buffer.
\<close>

definition readDirectory64End ::
  "u8 list \<Rightarrow> Reader \<Rightarrow> int \<Rightarrow> directoryEnd \<Rightarrow> error + directoryEnd" where
  "readDirectory64End behind r offset d =
     (case ReadAt r (int directory64EndLen) offset of
        Inl e \<Rightarrow> Inl e
      | Inr buf \<Rightarrow>
          (let (sig, b) = Read32 buf in
           if sig \<noteq> directory64EndSignature then Inl NotValidZip
           else
             (let b = Discard 16 b;
                  (v1, b) = Read32 b;
                  (v2, b) = Read32 b;
                  (v3, b) = Read64 b;
                  (v4, b) = Read64 b;
                  (v5, b) = Read64 b;
                  (v6, b) = Read64 (b @ behind)
              in Inr (d\<lparr>diskNbr := v1, dirDiskNbr := v2, dirRecordsThisDisk := v3,
                        directoryRecords := v4, directorySize := v5,
                        directoryOffset := v6\<rparr>))))"

text \<open>
  \<open>Reader::findDirectory64End\<close>. \<open>Inl e\<close> is the return of \<open>-1\<close> with \<open>ec\<close> set by
  \<open>ReadAt\<close>; the other returns leave \<open>ec\<close> clear.
\<close>

definition findDirectory64End :: "Reader \<Rightarrow> int \<Rightarrow> error + int" where
  "findDirectory64End r directoryEndOffset =
     (let locOffset = directoryEndOffset - int directory64LocLen in
      if locOffset < 0 then Inr (- 1)
      else
        (case ReadAt r (int directory64LocLen) locOffset of
           Inl e \<Rightarrow> Inl e
         | Inr buf \<Rightarrow>
             (let (sig, b) = Read32 buf in
              if sig \<noteq> directory64LocSignature then Inr (- 1)
              else
                (let (disk, b) = Read32 b in
                 if disk \<noteq> 0 then Inr (- 1)
                 else
                   (let (p, b) = Read64 b;
                        (total, b) = Read32 b
                    in if total \<noteq> 1 then Inr (- 1) else Inr (sint p))))))"

text \<open>
  The search loop of \<open>Reader::readDirectoryEnd\<close> over \<open>offrange[] = {1024, 65 * 1024}\<close>,
  with \<open>i\<close> the index of the pass and the list the ranges still to try. A pass reads the
  last \<open>blen\<close> bytes of the file; when \<open>findSignatureInBlock\<close> has a position \<open>p\<close> the loop
  breaks with \<open>directoryEndOffset = size - blen + p\<close> and the cursor \<open>b\<close> at \<open>p\<close>. The
  result also names the pass that found the record. The loop cannot run out of ranges:
  the second pass breaks or returns.
\<close>

fun findDirectoryEnd_loop ::
  "Reader \<Rightarrow> nat \<Rightarrow> int list \<Rightarrow> error + nat \<times> int \<times> u8 list" where
  "findDirectoryEnd_loop r i [] = Inr (i, 0, [])"
| "findDirectoryEnd_loop r i (rng # rngs) =
     (let blen = (if rng > zip_size r then zip_size r else rng) in
      case ReadAt r blen (zip_size r - blen) of
        Inl e \<Rightarrow> Inl e
      | Inr buf \<Rightarrow>
          (let p = findSignatureInBlock buf in
           if p \<ge> 0 then Inr (i, zip_size r - blen + p, drop (nat p) buf)
           else if i = 1 \<or> blen = zip_size r then Inl NotValidZip
           else findDirectoryEnd_loop r (Suc i) rngs))"

definition offrange :: "int list" where
  "offrange = [1024, 65 * 1024]"

text \<open>
  The decoding of the record in \<open>readDirectoryEnd\<close>, from the cursor \<open>b\<close> at the signature:
  the fixed fields, the comment, and the Zip64 record when
  \<open>d.directoryRecords == 0xFFFF || d.directorySize == 0xFFFF || d.directoryOffset == 0xFFFFFFFF\<close>.
  The last test is \<open>o < 0 || 0 >= size\<close> with \<open>o = static_cast<int64_t>(d.directoryOffset)\<close>.
  \<open>behind\<close> is passed on to \<open>readDirectory64End\<close>.
\<close>

definition decodeDirectoryEnd ::
  "u8 list \<Rightarrow> Reader \<Rightarrow> int \<Rightarrow> u8 list \<Rightarrow> error + directoryEnd" where
  "decodeDirectoryEnd behind r directoryEndOffset b0 =
     (let b = Discard 4 b0;
          (v1, b) = Read16 b;
          (v2, b) = Read16 b;
          (v3, b) = Read16 b;
          (v4, b) = Read16 b;
          (v5, b) = Read32 b;
          (v6, b) = Read32 b;
          (v7, b) = Read16 b
      in if unat v7 > length b then Inl InvalidCommentLength
         else
           (let d = \<lparr>diskNbr = ucast v1, dirDiskNbr = ucast v2, dirRecordsThisDisk = ucast v3,
                     directoryRecords = ucast v4, directorySize = ucast v5,
                     directoryOffset = ucast v6, commentLen = v7,
                     comment = take (unat v7) b\<rparr>;
                d64 =
                  (if directoryRecords d = 0xFFFF \<or> directorySize d = 0xFFFF
                      \<or> directoryOffset d = 0xFFFFFFFF
                   then
                     (case findDirectory64End r directoryEndOffset of
                        Inl e \<Rightarrow> Inl e
                      | Inr p \<Rightarrow> if p > 0 then readDirectory64End behind r p d else Inr d)
                   else Inr d)
            in case d64 of
                 Inl e \<Rightarrow> Inl e
               | Inr d' \<Rightarrow>
                   if sint (directoryOffset d') < 0 \<or> 0 \<ge> zip_size r then Inl NotValidZip
                   else Inr d'))"

definition readDirectoryEnd :: "u8 list \<Rightarrow> Reader \<Rightarrow> error + directoryEnd" where
  "readDirectoryEnd behind r =
     (case findDirectoryEnd_loop r 0 offrange of
        Inl e \<Rightarrow> Inl e
      | Inr (i, directoryEndOffset, b) \<Rightarrow> decodeDirectoryEnd behind r directoryEndOffset b)"

section \<open>ZIP: a central directory header (src/hazel/zip/zip.cc)\<close>

text \<open>
  Modelled from the spec: \<open>bela::Time\<close> and its conversions (bela/datetime.hpp, bela/time.hpp)
  are not in the sources. A time is its number of seconds since the Unix epoch (fractions
  of a second are dropped); a default-constructed \<open>bela::Time\<close> is the epoch.
  \<open>FromWindowsPreciseTime\<close> takes 100 ns ticks since 1601-01-01, \<open>FromDosDateTime\<close> the
  packed MS-DOS date (year - 1980, month, day in 7, 4 and 5 bits) and time (hour, minute,
  second / 2 in 5, 6 and 5 bits), read as UTC.
\<close>

type_synonym Time = int

definition Time_default :: Time where
  "Time_default = 0"

definition FromUnixSeconds :: "int \<Rightarrow> Time" where
  "FromUnixSeconds s = s"

definition ToUnixSeconds :: "Time \<Rightarrow> int" where
  "ToUnixSeconds t = t"

definition FromWindowsPreciseTime :: "u64 \<Rightarrow> Time" where
  "FromWindowsPreciseTime tick = uint tick div 10000000 - 11644473600"

definition days_from_civil :: "int \<Rightarrow> int \<Rightarrow> int \<Rightarrow> int" where
  "days_from_civil y0 m0 d =
     (let y1 = y0 + (m0 - 1) div 12;
          m = (m0 - 1) mod 12 + 1;
          y = (if m \<le> 2 then y1 - 1 else y1);
          era = y div 400;
          yoe = y - era * 400;
          doy = (153 * ((m + 9) mod 12) + 2) div 5 + d - 1;
          doe = yoe * 365 + yoe div 4 - yoe div 100 + doy
      in era * 146097 + doe - 719468)"

definition FromDosDateTime :: "u16 \<Rightarrow> u16 \<Rightarrow> Time" where
  "FromDosDateTime dosDate dosTime =
     (let year = uint (drop_bit 9 dosDate) + 1980;
          mon = uint (drop_bit 5 dosDate AND 0xf);
          day = uint (dosDate AND 0x1f);
          hour = uint (drop_bit 11 dosTime);
          minute = uint (drop_bit 5 dosTime AND 0x3f);
          sec = 2 * uint (dosTime AND 0x1f)
      in days_from_civil year mon day * 86400 + hour * 3600 + minute * 60 + sec)"

text \<open>
  Modelled from the spec: \<open>struct File\<close> of hazel/zip.hpp is not in the sources. Its fields
  are those \<open>readDirectoryHeader\<close> assigns (section 3, ZipFileEntry); the sizes and the
  position hold the 64-bit values of the Zip64 extra field. The member \<open>method\<close> is
  \<open>zmethod\<close> here and \<open>comment\<close> is \<open>file_comment\<close>.
\<close>

record zip_File =
  name :: "u8 list"
  extra :: "u8 list"
  file_comment :: "u8 list"
  cversion :: u16
  rversion :: u16
  flags :: u16
  zmethod :: u16
  crc32 :: u32
  compressedSize :: u64
  uncompressedSize :: u64
  position :: u64
  externalAttrs :: u32
  time :: Time
  utf8 :: bool
  aesVersion :: u16
  aesStrength :: u8

definition default_File :: zip_File where
  "default_File =
     \<lparr>name = [], extra = [], file_comment = [], cversion = 0, rversion = 0, flags = 0,
      zmethod = 0, crc32 = 0, compressedSize = 0, uncompressedSize = 0, position = 0,
      externalAttrs = 0, time = Time_default, utf8 = False, aesVersion = 0, aesStrength = 0\<rparr>"

definition SizeMin :: u32 where
  "SizeMin = 0xFFFFFFFF"

definition OffsetMin :: u64 where
  "OffsetMin = 0xFFFFFFFF"

definition zip64ExtraID :: u16 where
  "zip64ExtraID = 0x0001"

definition ntfsExtraID :: u16 where
  "ntfsExtraID = 0x000a"

definition unixExtraID :: u16 where
  "unixExtraID = 0x000d"

definition extTimeExtraID :: u16 where
  "extTimeExtraID = 0x5455"

definition infoZipUnixExtraID :: u16 where
  "infoZipUnixExtraID = 0x5855"

definition winzipAesExtraID :: u16 where
  "winzipAesExtraID = 0x9901"

text \<open>
  The variables that the loop over the extra fields reads and writes: the three flags,
  \<open>file\<close> and \<open>modified\<close>.
\<close>

record extra_state =
  needUSize :: bool
  needSize :: bool
  needOffset :: bool
  xfile :: zip_File
  modified :: Time

text \<open>
  The branch \<open>fieldTag == zip64ExtraID\<close>: three tests in a row on the cursor \<open>fb\<close> of the
  field, each of which clears its flag, fails on fewer than 8 bytes and else reads 8.
\<close>

definition zip64_usize :: "u8 list \<times> extra_state \<Rightarrow> error + u8 list \<times> extra_state" where
  "zip64_usize = (\<lambda>(fb, st).
     if needUSize st then
       (if length fb < 8 then Inl NotValidZip
        else (let (v, fb') = Read64 fb
              in Inr (fb', st\<lparr>needUSize := False, xfile := (xfile st)\<lparr>uncompressedSize := v\<rparr>\<rparr>)))
     else Inr (fb, st))"

definition zip64_size :: "u8 list \<times> extra_state \<Rightarrow> error + u8 list \<times> extra_state" where
  "zip64_size = (\<lambda>(fb, st).
     if needSize st then
       (if length fb < 8 then Inl NotValidZip
        else (let (v, fb') = Read64 fb
              in Inr (fb', st\<lparr>needSize := False, xfile := (xfile st)\<lparr>compressedSize := v\<rparr>\<rparr>)))
     else Inr (fb, st))"

definition zip64_offset :: "u8 list \<times> extra_state \<Rightarrow> error + u8 list \<times> extra_state" where
  "zip64_offset = (\<lambda>(fb, st).
     if needOffset st then
       (if length fb < 8 then Inl NotValidZip
        else (let (v, fb') = Read64 fb
              in Inr (fb', st\<lparr>needOffset := False, xfile := (xfile st)\<lparr>position := v\<rparr>\<rparr>)))
     else Inr (fb, st))"

definition zip64_extra :: "u8 list \<Rightarrow> extra_state \<Rightarrow> error + extra_state" where
  "zip64_extra fb st =
     (case zip64_usize (fb, st) of
        Inl e \<Rightarrow> Inl e
      | Inr s1 \<Rightarrow>
          (case zip64_size s1 of
             Inl e \<Rightarrow> Inl e
           | Inr s2 \<Rightarrow>
               (case zip64_offset s2 of
                  Inl e \<Rightarrow> Inl e
                | Inr (fb3, st3) \<Rightarrow> Inr st3)))"

text \<open>The inner loop of the branch \<open>fieldTag == ntfsExtraID\<close>, over the attributes.\<close>

function ntfs_attrs :: "u8 list \<Rightarrow> extra_state \<Rightarrow> extra_state" where
  "ntfs_attrs fb st =
     (if length fb < 4 then st
      else
        (let attrTag = le16 fb;
             attrSize = le16 (drop 2 fb)
         in if length (drop 4 fb) < unat attrSize then st
            else if attrTag \<noteq> 1 \<or> attrSize \<noteq> 24 then st
            else ntfs_attrs (drop (unat attrSize) (drop 4 fb))
                   (st\<lparr>modified := FromWindowsPreciseTime (le64 (take (unat attrSize) (drop 4 fb)))\<rparr>)))"
  by pat_completeness auto
termination
  by (relation "measure (\<lambda>(fb, st). length fb)") auto

declare ntfs_attrs.simps [simp del]

text \<open>
  The body of the loop for one field with tag \<open>fieldTag\<close> and cursor \<open>fb\<close>. Only the Zip64
  branch can fail; every branch ends in \<open>continue\<close>.
\<close>

definition extra_field :: "u16 \<Rightarrow> u8 list \<Rightarrow> extra_state \<Rightarrow> error + extra_state" where
  "extra_field fieldTag fb st =
     (if fieldTag = zip64ExtraID then zip64_extra fb st
      else if fieldTag = ntfsExtraID then
        Inr (if length fb < 4 then st else ntfs_attrs (Discard 4 fb) st)
      else if fieldTag = unixExtraID \<or> fieldTag = infoZipUnixExtraID then
        Inr (if length fb < 8 then st
             else st\<lparr>xfile := (xfile st)
                    \<lparr>time := FromUnixSeconds (uint (fst (Read32 (Discard 4 fb))))\<rparr>\<rparr>)
      else if fieldTag = extTimeExtraID then
        Inr (if length fb < 5 \<or> fst (Pick fb) AND 1 = 0 then st
             else st\<lparr>modified := FromUnixSeconds (uint (fst (Read32 (snd (Pick fb)))))\<rparr>)
      else if fieldTag = winzipAesExtraID then
        Inr (if length fb < 7 then st
             else
               (let (v, b1) = Read16 fb;
                    b2 = Discard 2 b1;
                    (strength, b3) = Pick b2;
                    (m, b4) = Read16 b3
                in st\<lparr>xfile := (xfile st)\<lparr>aesVersion := v, aesStrength := strength, zmethod := m\<rparr>\<rparr>))
      else Inr st)"

text \<open>
  The loop \<open>for (; extra.Size() >= 4;)\<close> over the extra fields: tag and size, \<open>break\<close> when
  the field is longer than what is left, else the body on \<open>fb = extra.Sub(fieldSize)\<close>.
\<close>

function parse_extra :: "u8 list \<Rightarrow> extra_state \<Rightarrow> error + extra_state" where
  "parse_extra ex st =
     (if length ex < 4 then Inr st
      else
        (let fieldTag = le16 ex;
             fieldSize = unat (le16 (drop 2 ex))
         in if length (drop 4 ex) < fieldSize then Inr st
            else
              (case extra_field fieldTag (take fieldSize (drop 4 ex)) st of
                 Inl e \<Rightarrow> Inl e
               | Inr st' \<Rightarrow> parse_extra (drop fieldSize (drop 4 ex)) st')))"
  by pat_completeness auto
termination
  by (relation "measure (\<lambda>(ex, st). length ex)") auto

declare parse_extra.simps [simp del]

text \<open>
  Modelled from the spec: \<open>bela::bufio::Reader\<close> is not in the sources. \<open>br\<close> is the list of
  the bytes from the reader's position to the end of the file; \<open>ReadFull\<close> returns the
  next \<open>n\<close> bytes and the reader behind them, or fails when fewer are left (section 6).
\<close>

definition br_ReadFull :: "u8 list \<Rightarrow> nat \<Rightarrow> (u8 list \<times> u8 list) option" where
  "br_ReadFull br n = (if n \<le> length br then Some (take n br, drop n br) else None)"

text \<open>
  The fixed part of \<open>readDirectoryHeader\<close>: the 46 bytes of the header into \<open>file\<close>, with
  the DOS time and date and the three lengths.
\<close>

record fixed_header =
  fx_file :: zip_File
  dosTime :: u16
  dosDate :: u16
  filenameLen :: u16
  extraLen :: u16
  fx_commentLen :: u16

definition decode_fixed :: "u8 list \<Rightarrow> zip_File \<Rightarrow> error + fixed_header" where
  "decode_fixed buf file =
     (let (sig, b) = Read32 buf in
      if sig \<noteq> directoryHeaderSignature then Inl NotValidZip
      else
        (let (v1, b) = Read16 b;
             (v2, b) = Read16 b;
             (v3, b) = Read16 b;
             (v4, b) = Read16 b;
             (t, b) = Read16 b;
             (d, b) = Read16 b;
             (v5, b) = Read32 b;
             (v6, b) = Read32 b;
             (v7, b) = Read32 b;
             (l1, b) = Read16 b;
             (l2, b) = Read16 b;
             (l3, b) = Read16 b;
             b = Discard 4 b;
             (v8, b) = Read32 b;
             (v9, b) = Read32 b
         in Inr \<lparr>fx_file = file\<lparr>cversion := v1, rversion := v2, flags := v3, zmethod := v4,
                               crc32 := v5, compressedSize := ucast v6,
                               uncompressedSize := ucast v7, externalAttrs := v8,
                               position := ucast v9\<rparr>,
                  dosTime = t, dosDate = d, filenameLen = l1, extraLen = l2,
                  fx_commentLen = l3\<rparr>))"

text \<open>
  The rest of \<open>readDirectoryHeader\<close>, from the variable part \<open>var\<close> (name, extra field and
  comment) on: the three strings, the flags, the loop over the extra fields, the
  timestamp and the last test \<open>needSize || needOffset\<close>.
\<close>

definition finish_header :: "fixed_header \<Rightarrow> u8 list \<Rightarrow> error + zip_File" where
  "finish_header h var =
     (let f0 = (fx_file h)
            \<lparr>name := take (unat (filenameLen h)) var,
             extra := take (unat (extraLen h)) (drop (unat (filenameLen h)) var),
             file_comment := take (unat (fx_commentLen h))
                 (drop (unat (filenameLen h) + unat (extraLen h)) var)\<rparr>;
          f1 = f0\<lparr>utf8 := (flags f0 AND 0x800 \<noteq> 0)\<rparr>;
          st0 = \<lparr>needUSize = (uncompressedSize f1 = ucast SizeMin),
                 needSize = (compressedSize f1 = ucast SizeMin),
                 needOffset = (position f1 = OffsetMin),
                 xfile = f1, modified = Time_default\<rparr>
      in case parse_extra (extra f1) st0 of
           Inl e \<Rightarrow> Inl e
         | Inr st \<Rightarrow>
             (let f2 = (xfile st)\<lparr>time := FromDosDateTime (dosDate h) (dosTime h)\<rparr>;
                  f3 = (if ToUnixSeconds (modified st) \<noteq> 0 then f2\<lparr>time := modified st\<rparr> else f2)
              in if needSize st \<or> needOffset st then Inl NotValidZip else Inr f3))"

definition readDirectoryHeader :: "u8 list \<Rightarrow> zip_File \<Rightarrow> error + zip_File \<times> u8 list" where
  "readDirectoryHeader br file =
     (case br_ReadFull br directoryHeaderLen of
        None \<Rightarrow> Inl IOError
      | Some (buf, br1) \<Rightarrow>
          (case decode_fixed buf file of
             Inl e \<Rightarrow> Inl e
           | Inr h \<Rightarrow>
               (let totallen = unat (filenameLen h) + unat (extraLen h) + unat (fx_commentLen h)
                in case br_ReadFull br1 totallen of
                     None \<Rightarrow> Inl IOError
                   | Some (var, br2) \<Rightarrow>
                       (case finish_header h var of
                          Inl e \<Rightarrow> Inl e
                        | Inr f \<Rightarrow> Inr (f, br2)))))"

section \<open>ZIP: \<open>Reader::Initialize\<close>\<close>

text \<open>
  What \<open>Initialize\<close> builds (\<open>comment\<close>, \<open>files\<close> and the two totals), and the calls it
  makes to the other members, in order: the trace on which a claim about what happens
  before what can be stated.
\<close>

record Reader_out =
  r_comment :: "u8 list"
  files :: "zip_File list"
  r_uncompressedSize :: u64
  r_compressedSize :: u64

datatype call =
    Call_readDirectoryEnd
  | Call_PositionAt u64
  | Call_readDirectoryHeader nat

text \<open>
  The loop \<open>for (uint64_t i = 0; i < d.directoryRecords; i++)\<close>, with \<open>n\<close> the number of
  rounds left.
\<close>

fun Initialize_loop ::
  "nat \<Rightarrow> nat \<Rightarrow> u8 list \<Rightarrow> Reader_out \<Rightarrow> call list \<Rightarrow> call list \<times> (error + Reader_out)" where
  "Initialize_loop 0 i br out calls = (calls, Inr out)"
| "Initialize_loop (Suc n) i br out calls =
     (case readDirectoryHeader br default_File of
        Inl e \<Rightarrow> (calls @ [Call_readDirectoryHeader i], Inl e)
      | Inr (file, br') \<Rightarrow>
          Initialize_loop n (Suc i) br'
            (out\<lparr>r_uncompressedSize := r_uncompressedSize out + uncompressedSize file,
                 r_compressedSize := r_compressedSize out + compressedSize file,
                 files := files out @ [file]\<rparr>)
            (calls @ [Call_readDirectoryHeader i]))"

text \<open>
  \<open>Reader::Initialize\<close>. The test is
  \<open>d.directoryRecords > static_cast<uint64_t>(size) / fileHeaderLen\<close>, in \<open>uint64_t\<close>.
  \<open>PositionAt\<close> leaves the buffered reader at \<open>d.directoryOffset\<close>. \<open>behind\<close> is passed on
  to \<open>readDirectoryEnd\<close>.
\<close>

definition Initialize :: "u8 list \<Rightarrow> Reader \<Rightarrow> call list \<times> (error + Reader_out)" where
  "Initialize behind r =
     (case readDirectoryEnd behind r of
        Inl e \<Rightarrow> ([Call_readDirectoryEnd], Inl e)
      | Inr d \<Rightarrow>
          if directoryRecords d > (word_of_int (zip_size r) :: u64) div of_nat fileHeaderLen
          then ([Call_readDirectoryEnd], Inl (ImpossibleTOC (directoryRecords d) (zip_size r)))
          else
            Initialize_loop (unat (directoryRecords d)) 0
              (drop (unat (directoryOffset d)) (zip_fd r))
              \<lparr>r_comment = comment d, files = [], r_uncompressedSize = 0, r_compressedSize = 0\<rparr>
              [Call_readDirectoryEnd, Call_PositionAt (directoryOffset d)])"

text \<open>The reader of a file given by its bytes, with \<open>size\<close> the number of them.\<close>

definition reader_of :: "u8 list \<Rightarrow> Reader" where
  "reader_of bytes = \<lparr>zip_fd = bytes, zip_size = int (length bytes)\<rparr>"

section \<open>ZIP: sample archives\<close>

text \<open>
  An end-of-central-directory record without comment, with the two bytes of the entry
  counts and the four bytes of the directory size as given and directory offset 0; a
  Zip64 locator that points to offset 4; a Zip64 end record with 5 entries and a
  directory of \<open>2\<^sup>3\<^sup>2\<close> bytes; the archive of four zero bytes, a 56-byte record, the
  locator and an end record; a Zip64 end record that declares 10000000 entries
  (\<open>0x989680\<close>) on this disk and in total, with directory size and offset 0; and a file
  of 100 bytes whose end record declares 1000 entries.
\<close>

definition eocd_sample :: "u8 \<Rightarrow> u8 \<Rightarrow> u8 \<Rightarrow> u8 \<Rightarrow> u8 \<Rightarrow> u8 \<Rightarrow> u8 list" where
  "eocd_sample n0 n1 s0 s1 s2 s3 =
     [0x50, 0x4b, 0x05, 0x06, 0, 0, 0, 0, n0, n1, n0, n1, s0, s1, s2, s3, 0, 0, 0, 0, 0, 0]"

definition zip64_loc_sample :: "u8 list" where
  "zip64_loc_sample =
     [0x50, 0x4b, 0x06, 0x07, 0, 0, 0, 0, 4, 0, 0, 0, 0, 0, 0, 0, 1, 0, 0, 0]"

definition zip64_end_sample :: "u8 list" where
  "zip64_end_sample =
     [0x50, 0x4b, 0x06, 0x06, 0x2c, 0, 0, 0, 0, 0, 0, 0, 0x2d, 0, 0x2d, 0,
      0, 0, 0, 0, 0, 0, 0, 0,
      5, 0, 0, 0, 0, 0, 0, 0, 5, 0, 0, 0, 0, 0, 0, 0,
      0, 0, 0, 0, 1, 0, 0, 0, 0, 0, 0, 0, 0, 0, 0, 0]"

definition zip64_sample :: "u8 list \<Rightarrow> u8 list \<Rightarrow> u8 list" where
  "zip64_sample rec64 eocd = [0, 0, 0, 0] @ rec64 @ zip64_loc_sample @ eocd"

definition zip64_count_sample :: "u8 list" where
  "zip64_count_sample =
     [0x50, 0x4b, 0x06, 0x06, 0x2c] @ replicate 7 0 @ [0x2d, 0, 0x2d, 0] @ replicate 8 0
     @ [0x80, 0x96, 0x98] @ replicate 5 0 @ [0x80, 0x96, 0x98] @ replicate 5 0
     @ replicate 16 0"

definition toc_sample :: "u8 list" where
  "toc_sample = replicate 78 0 @ eocd_sample 0xE8 0x03 0 0 0 0"

section \<open>ZIP: where an end record lies\<close>

text \<open>
  An end-of-central-directory record at offset \<open>k\<close> of a file: the 22 bytes of the fixed
  part lie inside the file, the signature stands at \<open>k\<close>, and the declared comment fits
  into the rest of the file. \<open>is_last_eocd\<close>: the record at \<open>K\<close> is the one nearest to the end.
\<close>

definition eocd_at :: "u8 list \<Rightarrow> nat \<Rightarrow> bool" where
  "eocd_at fd k \<longleftrightarrow> k + directoryEndLen \<le> length fd \<and> sig_ok fd k"

definition is_last_eocd :: "u8 list \<Rightarrow> nat \<Rightarrow> bool" where
  "is_last_eocd fd K \<longleftrightarrow> eocd_at fd K \<and> (\<forall>k. eocd_at fd k \<longrightarrow> k \<le> K)"

text \<open>The offsets at which the four signature bytes stand, whatever follows them.\<close>

definition sig_positions :: "u8 list \<Rightarrow> nat list" where
  "sig_positions fd = filter (\<lambda>k. take 4 (drop k fd) = [0x50, 0x4b, 0x05, 0x06]) [0..<length fd]"

text \<open>
  A file of 66000 bytes: an end record at offset 0 and zeros behind it (the declared
  comment is empty).
\<close>

definition far_sample :: "u8 list" where
  "far_sample = eocd_sample 1 0 0 0 0 0 @ replicate 65978 0"

section \<open>ZIP: what a directory header holds, and sample headers\<close>

text \<open>
  A Zip64 extra field with payload \<open>fb\<close>: tag \<open>0x0001\<close>, the length of the payload in two
  bytes, the payload. \<open>extra_of\<close> is the extra field of a header inside the variable part.
\<close>

definition zip64_block :: "u8 list \<Rightarrow> u8 list" where
  "zip64_block fb = [0x01, 0x00, of_nat (length fb mod 256), of_nat (length fb div 256)] @ fb"

definition extra_of :: "fixed_header \<Rightarrow> u8 list \<Rightarrow> u8 list" where
  "extra_of h var = take (unat (extraLen h)) (drop (unat (filenameLen h)) var)"

text \<open>
  An extra field that lies complete in the extra data: the two bytes of its tag, the
  length of its payload in two bytes, the payload. A sequence of such fields, and the
  sequences without a Zip64 field.
\<close>

definition extra_block :: "u8 \<Rightarrow> u8 \<Rightarrow> u8 list \<Rightarrow> u8 list" where
  "extra_block t0 t1 fb = [t0, t1, of_nat (length fb mod 256), of_nat (length fb div 256)] @ fb"

definition extra_blocks :: "(u8 \<times> u8 \<times> u8 list) list \<Rightarrow> u8 list" where
  "extra_blocks flds = concat (map (\<lambda>(t0, t1, fb). extra_block t0 t1 fb) flds)"

definition other_fields :: "(u8 \<times> u8 \<times> u8 list) list \<Rightarrow> bool" where
  "other_fields flds \<longleftrightarrow>
     list_all (\<lambda>(t0, t1, fb). le16 [t0, t1] \<noteq> zip64ExtraID \<and> length fb < 65536) flds"

text \<open>
  Which of the three fixed fields of a header hold \<open>0xFFFFFFFF\<close>, and how many of them.
\<close>

definition usize_sentinel :: "fixed_header \<Rightarrow> bool" where
  "usize_sentinel h \<longleftrightarrow> uncompressedSize (fx_file h) = 0xFFFFFFFF"

definition csize_sentinel :: "fixed_header \<Rightarrow> bool" where
  "csize_sentinel h \<longleftrightarrow> compressedSize (fx_file h) = 0xFFFFFFFF"

definition offset_sentinel :: "fixed_header \<Rightarrow> bool" where
  "offset_sentinel h \<longleftrightarrow> position (fx_file h) = 0xFFFFFFFF"

definition n_sentinel :: "fixed_header \<Rightarrow> nat" where
  "n_sentinel h = of_bool (usize_sentinel h) + of_bool (csize_sentinel h) + of_bool (offset_sentinel h)"

text \<open>
  The three values a Zip64 field can replace, and the state in which none is awaited.
\<close>

definition sizes_of :: "extra_state \<Rightarrow> u64 \<times> u64 \<times> u64" where
  "sizes_of st = (uncompressedSize (xfile st), compressedSize (xfile st), position (xfile st))"

definition no_need :: "extra_state \<Rightarrow> bool" where
  "no_need st \<longleftrightarrow> \<not> needUSize st \<and> \<not> needSize st \<and> \<not> needOffset st"

text \<open>Two states of the loop with the same flags and the same three values.\<close>

definition same_needs :: "extra_state \<Rightarrow> extra_state \<Rightarrow> bool" where
  "same_needs st' st \<longleftrightarrow>
     needUSize st' = needUSize st \<and> needSize st' = needSize st
     \<and> needOffset st' = needOffset st \<and> sizes_of st' = sizes_of st"

text \<open>
  A central directory header for a file named \<open>a\<close>: DOS date \<open>0x5221\<close> (2021-01-01), DOS
  time 0, compressed size 16, the four bytes of the uncompressed size and the extra field
  as given. An extra field of tag \<open>0x000d\<close> (access time 0, modification time
  1000000000) and one of tag \<open>0x5455\<close> (flags 1, modification time 1000000000). A decoded
  fixed part with the uncompressed size at its sentinel and an extra field of \<open>n\<close> bytes.
\<close>

definition cdh_sample :: "u8 list \<Rightarrow> u8 list \<Rightarrow> u8 list" where
  "cdh_sample usize ex =
     [0x50, 0x4b, 0x01, 0x02, 0x1e, 0x03, 0x14, 0, 0, 0, 0, 0, 0, 0, 0x21, 0x52]
     @ [0, 0, 0, 0, 0x10, 0, 0, 0] @ usize
     @ [0x01, 0, of_nat (length ex), 0, 0, 0, 0, 0, 0, 0, 0, 0, 0, 0, 0, 0, 0, 0]
     @ [0x61] @ ex"

definition unix_extra_sample :: "u8 list" where
  "unix_extra_sample = [0x0d, 0x00, 0x08, 0x00, 0, 0, 0, 0, 0x00, 0xCA, 0x9A, 0x3B]"

definition exttime_extra_sample :: "u8 list" where
  "exttime_extra_sample = [0x55, 0x54, 0x05, 0x00, 0x01, 0x00, 0xCA, 0x9A, 0x3B]"

definition h_sample :: "u16 \<Rightarrow> fixed_header" where
  "h_sample n =
     \<lparr>fx_file = default_File\<lparr>compressedSize := 0x10, uncompressedSize := 0xFFFFFFFF\<rparr>,
      dosTime = 0, dosDate = 0x5221, filenameLen = 1, extraLen = n, fx_commentLen = 0\<rparr>"

section \<open>PE: the export table (\<open>File::LookupExports\<close>, src/belawin/pe/file.cc)\<close>

text \<open>
  \<open>IMAGE_EXPORT_DIRECTORY\<close> is the 40-byte record of the Windows SDK (winnt.h); its fields
  \<open>Characteristics\<close>, \<open>TimeDateStamp\<close> and \<open>Name\<close> carry the prefix \<open>ied_\<close>. The record is
  copied out of the section data field by field as little-endian values.
\<close>

record IMAGE_EXPORT_DIRECTORY =
  ied_Characteristics :: u32
  ied_TimeDateStamp :: u32
  MajorVersion :: u16
  MinorVersion :: u16
  ied_Name :: u32
  Base :: u32
  NumberOfFunctions :: u32
  NumberOfNames :: u32
  AddressOfFunctions :: u32
  AddressOfNames :: u32
  AddressOfNameOrdinals :: u32



text \<open>
  \<open>struct ExportedSymbol\<close> of pe.hpp, with \<open>es_Name\<close> for \<open>Name\<close>. \<open>Address\<close> has no
  initialiser: \<open>None\<close> is an address that was never assigned.
\<close>

record ExportedSymbol =
  es_Name :: "u8 list"
  UndecoratedName :: "u8 list"
  ForwardName :: "u8 list"
  Address :: "u32 option"
  Ordinal :: u16
  Hint :: int

definition default_ExportedSymbol :: ExportedSymbol where
  "default_ExportedSymbol =
     \<lparr>es_Name = [], UndecoratedName = [], ForwardName = [], Address = None,
      Ordinal = 0xFFFF, Hint = 0\<rparr>"

text \<open>
  A read that \<open>LookupExports\<close> asks of the section data: the table it serves, the offset
  and the number of bytes, wherever the offset lies. The model of \<open>LookupExports\<close> gives
  the reads it asks for beside the symbols, so that it can be said where they lie.
\<close>

datatype export_table = DirectoryRecord | NameOrdinals | Names | NameString | Functions

type_synonym raw_read = "export_table \<times> nat \<times> nat"



text \<open>
  \<open>SectionBuffer::cstring_view(offset)\<close> of pe.hpp, with \<open>cslength\<close> at its default: empty
  for an offset behind the end, else the bytes from \<open>offset\<close> to the first zero byte,
  empty when there is none. The loop reads the bytes up to and including the zero byte,
  or up to the end.
\<close>

definition cstring_view :: "u8 list \<Rightarrow> nat \<Rightarrow> u8 list" where
  "cstring_view rawdata offset =
     (if offset > length rawdata then []
      else if 0 \<in> set (drop offset rawdata) then takeWhile (\<lambda>c. c \<noteq> 0) (drop offset rawdata)
      else [])"

definition cstring_reads :: "u8 list \<Rightarrow> nat \<Rightarrow> raw_read list" where
  "cstring_reads rawdata offset =
     (if offset > length rawdata then []
      else [(NameString, offset,
             min (length (takeWhile (\<lambda>c. c \<noteq> 0) (drop offset rawdata)) + 1)
                 (length rawdata - offset))])"

text \<open>
  The test \<open>a > ds->VirtualAddress && a < ds->VirtualAddress + ds->VirtualSize\<close> in
  \<open>uint32_t\<close>, and what it is to lie strictly inside the section's range of addresses.
\<close>

definition inside_section :: "u32 \<Rightarrow> Section \<Rightarrow> bool" where
  "inside_section a ds \<longleftrightarrow> a > VirtualAddress ds \<and> a < VirtualAddress ds + VirtualSize ds"

definition strictly_within :: "u32 \<Rightarrow> Section \<Rightarrow> bool" where
  "strictly_within a ds \<longleftrightarrow>
     unat (VirtualAddress ds) < unat a
     \<and> unat a < unat (VirtualAddress ds) + unat (VirtualSize ds)"

text \<open>
  \<open>sdata->size() - L\<close> is a difference of \<open>size_t\<close>: modulo \<open>2\<^sup>6\<^sup>4\<close>. The three tests on
  it, and the offsets the loops hand to \<open>cast_fromle\<close>: \<open>L + i * 2\<close>, \<open>N + i * 4\<close> and
  \<open>L + static_cast<int>(exports[i].Ordinal - ordinalBase) * 4\<close>, the last one a sum of a
  \<open>uint32_t\<close> and an \<open>int\<close>, taken modulo \<open>2\<^sup>3\<^sup>2\<close>; \<open>ordinalBase\<close> is
  \<open>static_cast<uint16_t>(ied.Base)\<close>.
\<close>

definition size_t_sub :: "nat \<Rightarrow> nat \<Rightarrow> nat" where
  "size_t_sub a b = nat ((int a - int b) mod 2 ^ 64)"

definition ordinals_guard :: "IMAGE_EXPORT_DIRECTORY \<Rightarrow> Section \<Rightarrow> u8 list \<Rightarrow> bool" where
  "ordinals_guard ied ds sdata \<longleftrightarrow>
     inside_section (AddressOfNameOrdinals ied) ds
     \<and> size_t_sub (length sdata) (unat (AddressOfNameOrdinals ied - VirtualAddress ds))
         > unat (NumberOfNames ied) * 2"

definition names_guard :: "IMAGE_EXPORT_DIRECTORY \<Rightarrow> Section \<Rightarrow> u8 list \<Rightarrow> bool" where
  "names_guard ied ds sdata \<longleftrightarrow>
     inside_section (AddressOfNames ied) ds
     \<and> size_t_sub (length sdata) (unat (AddressOfNames ied - VirtualAddress ds))
         \<ge> unat (NumberOfNames ied) * 4"

definition functions_guard :: "IMAGE_EXPORT_DIRECTORY \<Rightarrow> u8 list \<Rightarrow> Section \<Rightarrow> u16 \<Rightarrow> bool" where
  "functions_guard ied sdata ds ordinal \<longleftrightarrow>
     size_t_sub (length sdata) (unat (AddressOfFunctions ied - VirtualAddress ds))
       > unat ordinal * 4 + 4"

definition ordinal_offset :: "IMAGE_EXPORT_DIRECTORY \<Rightarrow> Section \<Rightarrow> nat \<Rightarrow> nat" where
  "ordinal_offset ied ds i = unat (AddressOfNameOrdinals ied - VirtualAddress ds) + i * 2"

definition name_offset :: "IMAGE_EXPORT_DIRECTORY \<Rightarrow> Section \<Rightarrow> nat \<Rightarrow> nat" where
  "name_offset ied ds i = unat (AddressOfNames ied - VirtualAddress ds) + i * 4"

definition function_offset :: "IMAGE_EXPORT_DIRECTORY \<Rightarrow> Section \<Rightarrow> u16 \<Rightarrow> nat" where
  "function_offset ied ds ordinal =
     unat (AddressOfFunctions ied - VirtualAddress ds
           + word_of_int ((uint ordinal - uint (ucast (Base ied) :: u16)) * 4))"

text \<open>
  The three loops over \<open>exports\<close>, each with the reads it asks for: the ordinals
  (\<open>cast_fromle<uint16_t>(L + i * 2) + ordinalBase\<close>, and the hint), the names
  (\<open>cstring_view\<close> at the RVA that \<open>cast_fromle<uint32_t>(N + i * 4)\<close> returns, less the
  section's address) and the addresses, under the test on \<open>sdata->size() - L\<close> for each
  entry.
\<close>

definition ordinals_loop ::
  "(nat \<Rightarrow> u16) \<Rightarrow> IMAGE_EXPORT_DIRECTORY \<Rightarrow> Section \<Rightarrow> u8 list
     \<Rightarrow> ExportedSymbol list \<Rightarrow> ExportedSymbol list" where
  "ordinals_loop c16 ied ds sdata es =
     (if ordinals_guard ied ds sdata then
        map (\<lambda>(i, e). e\<lparr>Ordinal := c16 (ordinal_offset ied ds i) + ucast (Base ied),
                        Hint := int i\<rparr>)
          (enumerate 0 es)
      else es)"

definition ordinals_reads ::
  "IMAGE_EXPORT_DIRECTORY \<Rightarrow> Section \<Rightarrow> u8 list \<Rightarrow> nat \<Rightarrow> raw_read list" where
  "ordinals_reads ied ds sdata n =
     (if ordinals_guard ied ds sdata then
        map (\<lambda>i. (NameOrdinals, ordinal_offset ied ds i, 2)) [0..<n]
      else [])"

definition names_loop ::
  "(nat \<Rightarrow> u32) \<Rightarrow> IMAGE_EXPORT_DIRECTORY \<Rightarrow> Section \<Rightarrow> u8 list
     \<Rightarrow> ExportedSymbol list \<Rightarrow> ExportedSymbol list" where
  "names_loop c32 ied ds sdata es =
     (if names_guard ied ds sdata then
        map (\<lambda>(i, e). e\<lparr>es_Name := cstring_view sdata
                 (unat (c32 (name_offset ied ds i) - VirtualAddress ds))\<rparr>)
          (enumerate 0 es)
      else es)"

definition names_reads ::
  "(nat \<Rightarrow> u32) \<Rightarrow> IMAGE_EXPORT_DIRECTORY \<Rightarrow> Section \<Rightarrow> u8 list \<Rightarrow> nat
     \<Rightarrow> raw_read list" where
  "names_reads c32 ied ds sdata n =
     (if names_guard ied ds sdata then
        concat (map (\<lambda>i. (Names, name_offset ied ds i, 4)
                         # cstring_reads sdata
                             (unat (c32 (name_offset ied ds i) - VirtualAddress ds)))
                  [0..<n])
      else [])"

definition functions_loop ::
  "(nat \<Rightarrow> u32) \<Rightarrow> IMAGE_EXPORT_DIRECTORY \<Rightarrow> Section \<Rightarrow> u8 list
     \<Rightarrow> ExportedSymbol list \<Rightarrow> ExportedSymbol list" where
  "functions_loop c32 ied ds sdata es =
     (if inside_section (AddressOfFunctions ied) ds then
        map (\<lambda>e. if functions_guard ied sdata ds (Ordinal e)
                 then e\<lparr>Address := Some (c32 (function_offset ied ds (Ordinal e)))\<rparr>
                 else e)
          es
      else es)"

definition functions_reads ::
  "IMAGE_EXPORT_DIRECTORY \<Rightarrow> Section \<Rightarrow> u8 list \<Rightarrow> ExportedSymbol list \<Rightarrow> raw_read list" where
  "functions_reads ied ds sdata es =
     (if inside_section (AddressOfFunctions ied) ds then
        map (\<lambda>e. (Functions, function_offset ied ds (Ordinal e), 4))
          (filter (\<lambda>e. functions_guard ied sdata ds (Ordinal e)) es)
      else [])"


text \<open>
  \<open>LookupExports_loops\<close> is \<open>exports\<close> after \<open>exports.resize(ied.NumberOfNames)\<close> and the
  three loops, with the reads they ask for. The closing \<open>std::sort\<close> by ordinal is not
  stable: it leaves the same symbols in some order in which the ordinals do not descend,
  and \<open>sorted_by_Ordinal es res\<close> says that \<open>res\<close> is such an order of \<open>es\<close>.
  \<open>LookupExports c16 c32 exd ds sdata exports reads\<close>: the call can return with \<open>exports\<close>,
  having asked for \<open>reads\<close>. It returns \<open>true\<close> on each of its paths from here.
\<close>

definition LookupExports_loops ::
  "(nat \<Rightarrow> u16) \<Rightarrow> (nat \<Rightarrow> u32) \<Rightarrow> IMAGE_EXPORT_DIRECTORY \<Rightarrow> Section \<Rightarrow> u8 list
     \<Rightarrow> ExportedSymbol list \<times> raw_read list" where
  "LookupExports_loops c16 c32 ied ds sdata =
     (let n = unat (NumberOfNames ied);
          es0 = replicate n default_ExportedSymbol;
          es1 = ordinals_loop c16 ied ds sdata es0;
          es2 = names_loop c32 ied ds sdata es1;
          es3 = functions_loop c32 ied ds sdata es2
      in (es3, ordinals_reads ied ds sdata n @ names_reads c32 ied ds sdata n
               @ functions_reads ied ds sdata es2))"



text \<open>
  A table whose address passes the range test starts inside the section data when its
  offset in the section is at most the length of the data; \<open>sdata->size() - L\<close> is then
  the number of bytes from the table to the end. \<open>ordinals_from_Base\<close>: no ordinal is
  below \<open>static_cast<uint16_t>(ied.Base)\<close>, so that \<open>Ordinal - ordinalBase\<close> is not negative.
  \<open>validated t ied ds\<close>: the address of table \<open>t\<close> lies strictly inside the section's range.
\<close>

definition table_in_data :: "u32 \<Rightarrow> Section \<Rightarrow> u8 list \<Rightarrow> bool" where
  "table_in_data a ds sdata \<longleftrightarrow>
     (inside_section a ds \<longrightarrow> unat (a - VirtualAddress ds) \<le> length sdata)"



definition validated :: "export_table \<Rightarrow> IMAGE_EXPORT_DIRECTORY \<Rightarrow> Section \<Rightarrow> bool" where
  "validated t ied ds =
     (case t of
        DirectoryRecord \<Rightarrow> True
      | NameOrdinals \<Rightarrow> strictly_within (AddressOfNameOrdinals ied) ds
      | Names \<Rightarrow> strictly_within (AddressOfNames ied) ds
      | NameString \<Rightarrow> strictly_within (AddressOfNames ied) ds
      | Functions \<Rightarrow> strictly_within (AddressOfFunctions ied) ds)"





section \<open>Results about the RVA lookup\<close>

lemma section_test_no_wrap:
  assumes "section_end_fits s"
  shows "(VirtualAddress s \<le> rva \<and> rva < VirtualAddress s + VirtualSize s)
         \<longleftrightarrow> in_section_range rva s"
proof -
  from assms have "unat (VirtualAddress s + VirtualSize s)
      = unat (VirtualAddress s) + unat (VirtualSize s)"
    by (simp add: section_end_fits_def unat_word_ariths)
  then show ?thesis
    by (simp add: in_section_range_def word_le_nat_alt word_less_nat_alt)
qed

text \<open>
  C8 (as amended). For every section list in which each section's end
  \<open>VirtualAddress + VirtualSize\<close> fits into 32 bits, and for every RVA, \<open>getSection\<close> scans
  the sections in order and returns the first one whose half-open range
  \<open>[VirtualAddress, VirtualAddress + VirtualSize)\<close> contains the RVA, whether or not the
  sections are disjoint or ordered; it returns the null result (no error) when no section
  contains the RVA. \<open>find\<close> is the first element of the list that satisfies the predicate.
\<close>

theorem getSection_first_containing:
  assumes "list_all section_end_fits secs"
  shows "getSection secs dd = find (in_section_range (dd_VirtualAddress dd)) secs"
  using assms
proof (induction secs)
  case Nil
  then show ?case by simp
next
  case (Cons s ss)
  then have "section_end_fits s" by simp
  from section_test_no_wrap [OF this] Cons show ?case by simp
qed

theorem getSection_first_containing_witness:
  "list_all section_end_fits [mk_section 0x1000 0x1000 0 0, mk_section 0x1800 0x1000 0 0]
   \<and> getSection [mk_section 0x1000 0x1000 0 0, mk_section 0x1800 0x1000 0 0]
        \<lparr>dd_VirtualAddress = 0x1900, dd_Size = 0\<rparr>
      = Some (mk_section 0x1000 0x1000 0 0)
   \<and> getSection [mk_section 0x1000 0x1000 0 0, mk_section 0x1800 0x1000 0 0]
        \<lparr>dd_VirtualAddress = 0x3000, dd_Size = 0\<rparr>
      = None"
proof -
  have h: "list_all section_end_fits
             [mk_section 0x1000 0x1000 0 0, mk_section 0x1800 0x1000 0 0]"
    by (simp add: section_end_fits_def mk_section_def)
  show ?thesis
    using h getSection_first_containing [OF h, of "\<lparr>dd_VirtualAddress = 0x1900, dd_Size = 0\<rparr>"]
      getSection_first_containing [OF h, of "\<lparr>dd_VirtualAddress = 0x3000, dd_Size = 0\<rparr>"]
    by (simp add: in_section_range_def mk_section_def)
qed

text \<open>
  C8 as stated fails where a section's end passes \<open>2\<^sup>3\<^sup>2\<close>: the section at \<open>0xFFFFF000\<close>
  of size \<open>0x2000\<close> contains the RVA \<open>0xFFFFF800\<close>, but the 32-bit sum is \<open>0x1000\<close> and the
  lookup returns the null result.
\<close>

theorem getSection_wraps_counterexample:
  "in_section_range 0xFFFFF800 (mk_section 0xFFFFF000 0x2000 0 0)
   \<and> getSection [mk_section 0xFFFFF000 0x2000 0 0]
        \<lparr>dd_VirtualAddress = 0xFFFFF800, dd_Size = 0\<rparr> = None"
  by (simp add: in_section_range_def mk_section_def)

section \<open>Results about the section buffer\<close>

text \<open>
  The later revision of \<open>function_hit\<close> and \<open>direct_cast\<close> read only inside the buffer,
  for every offset whose sum with the width does not wrap around.
\<close>

lemma function_hit_image_in_bounds:
  assumes "offset + 2 < 2 ^ 64"
  shows "function_hit_image rawdata offset =
           (if offset + 2 \<le> length rawdata then Value (be16 (take 2 (drop offset rawdata)))
            else Value 0)"
  using assms by (simp add: function_hit_image_def bytes_at_def)

lemma direct_cast_in_bounds:
  assumes "offset + n < 2 ^ 64"
  shows "direct_cast n rawdata offset =
           (if offset + n \<le> length rawdata then Value (Some (take n (drop offset rawdata)))
            else Value None)"
  using assms by (simp add: direct_cast_def bytes_at_def)

text \<open>
  C9. \<open>function_hit\<close> of pe.hpp has the comparison the wrong way round: with a buffer of
  two bytes and offset 1 it reads the bytes at 1 and 2, the second of them outside the
  buffer; with a buffer of four bytes and offset 0, where \<open>offset + 2\<close> does not exceed the
  size, it returns 0 without reading. The later revision refuses the first read and
  decodes the second.
\<close>

theorem function_hit_reads_outside:
  "function_hit [0x12, 0x34] 1 = OutOfBounds
   \<and> function_hit [0x12, 0x34, 0x56, 0x78] 0 = Value 0
   \<and> function_hit_image [0x12, 0x34] 1 = Value 0
   \<and> function_hit_image [0x12, 0x34, 0x56, 0x78] 0 = Value 0x1234"
  by (simp add: function_hit_def function_hit_image_def bytes_at_def be16_def be_nat_def)

section \<open>Results about \<open>NewFile\<close>\<close>

text \<open>
  C3 (as amended). Whenever \<open>NewFile\<close> returns a file, its 64-bit flag is decided by the
  16-bit field \<open>SizeOfOptionalHeader\<close> of the COFF file header alone (the two bytes at
  \<open>base + 16\<close>): the flag is set exactly when the field is 240, the size of
  \<open>OptionalHeader64\<close>. Nothing else of the file and no argument of the caller enters.
\<close>

theorem NewFile_is64bit:
  assumes "NewFile readStringTable readCOFFSymbols file = Inr r"
  shows "\<exists>base. coff_base file = Inr base \<and> base + 20 \<le> length file
           \<and> is64bit r = (le16 (take 2 (drop (base + 16) file)) = 240)"
proof -
  from assms obtain base b where
    base: "coff_base file = Inr base" and
    b: "bytes_at file base sizeof_FileHeader = Some b" and
    r: "r = \<lparr>fh = decode_FileHeader b,
              is64bit = (unat (SizeOfOptionalHeader (decode_FileHeader b)) = sizeof_OptionalHeader64)\<rparr>"
    by (auto simp: NewFile_def Let_def split: sum.splits option.splits if_splits)
  from b have len: "base + 20 \<le> length file" and b_eq: "b = take 20 (drop base file)"
    by (auto simp: bytes_at_def sizeof_FileHeader_def split: if_splits)
  have "le16 (drop 16 b) = le16 (take 2 (drop (base + 16) file))"
    by (simp add: b_eq le16_def drop_take add.commute)
  with r have "is64bit r = (unat (le16 (take 2 (drop (base + 16) file))) = 240)"
    by (simp add: decode_FileHeader_def sizeof_OptionalHeader64_def)
  also have "\<dots> = (le16 (take 2 (drop (base + 16) file)) = 240)"
    by (simp add: word_unat_eq_iff)
  finally show ?thesis using base len by blast
qed

lemma coff_base_pe_sample: "coff_base (pe_sample a b) = Inr 68"
  by (simp add: coff_base_def pe_sample_def bytes_at_def sizeof_DosHeader_def
      IMAGE_DOS_SIGNATURE_def le16_def le32_def)

theorem NewFile_is64bit_witness:
  "NewFile (\<lambda>h f. True) (\<lambda>h f. True) (pe_sample 240 0x02)
     = Inr \<lparr>fh = \<lparr>Machine = 0x8664, NumberOfSections = 0, TimeDateStamp = 0,
                 PointerToSymbolTable = 0, NumberOfSymbols = 0,
                 SizeOfOptionalHeader = 240, fh_Characteristics = 0x22\<rparr>,
            is64bit = True\<rparr>
   \<and> (\<exists>base. coff_base (pe_sample 240 0x02) = Inr base
          \<and> base + 20 \<le> length (pe_sample 240 0x02)
          \<and> le16 (take 2 (drop (base + 16) (pe_sample 240 0x02))) = 240)"
proof -
  have h: "NewFile (\<lambda>h f. True) (\<lambda>h f. True) (pe_sample 240 0x02)
     = Inr \<lparr>fh = \<lparr>Machine = 0x8664, NumberOfSections = 0, TimeDateStamp = 0,
                 PointerToSymbolTable = 0, NumberOfSymbols = 0,
                 SizeOfOptionalHeader = 240, fh_Characteristics = 0x22\<rparr>,
            is64bit = True\<rparr>"
    by (simp add: NewFile_def coff_base_pe_sample)
      (simp add: pe_sample_def bytes_at_def sizeof_FileHeader_def decode_FileHeader_def
        sizeof_OptionalHeader64_def le16_def le32_def)
  from NewFile_is64bit [OF h] h show ?thesis by simp
qed

text \<open>
  C3 as stated fails: the magic of the optional header is not read. An image with magic
  \<open>0x20b\<close> that declares an optional header of 224 bytes is decoded as 32-bit, and one
  with magic \<open>0x10b\<close> that declares 240 bytes as 64-bit.
\<close>

theorem NewFile_ignores_magic_counterexample:
  "optional_magic (pe_sample 224 0x02) = Some 0x20b
   \<and> map_sum id is64bit (NewFile (\<lambda>h f. True) (\<lambda>h f. True) (pe_sample 224 0x02)) = Inr False
   \<and> optional_magic (pe_sample 240 0x01) = Some 0x10b
   \<and> map_sum id is64bit (NewFile (\<lambda>h f. True) (\<lambda>h f. True) (pe_sample 240 0x01)) = Inr True"
  by (simp add: NewFile_def optional_magic_def coff_base_pe_sample)
    (simp add: pe_sample_def bytes_at_def sizeof_FileHeader_def decode_FileHeader_def
      sizeof_OptionalHeader64_def le16_def le32_def)

section \<open>Results about the overlay\<close>

lemma Max_insert_max:
  fixes a b :: int
  assumes "finite A"
  shows "Max (insert (max a b) A) = Max (insert a (insert b A))"
  using assms by (cases "A = {}") (simp_all add: max.assoc)

lemma overlayStart_loop_Max:
  "overlayStart_loop secs acc = Max (insert acc ((\<lambda>s. uint (Offset s + Size s)) ` set secs))"
proof (induction secs arbitrary: acc)
  case Nil
  then show ?case by simp
next
  case (Cons s ss)
  let ?e = "\<lambda>s. uint (Offset s + Size s)"
  have "overlayStart_loop (s # ss) acc = overlayStart_loop ss (max (?e s) acc)"
    by (simp add: Let_def max_def)
  also have "\<dots> = Max (insert (max (?e s) acc) (?e ` set ss))"
    by (rule Cons.IH)
  also have "\<dots> = Max (insert (?e s) (insert acc (?e ` set ss)))"
    by (rule Max_insert_max) simp
  finally show ?case by (simp add: insert_commute)
qed

lemma raw_end_no_wrap:
  assumes "raw_end_fits s"
  shows "uint (Offset s + Size s) = raw_end s"
  using assms by (simp add: raw_end_fits_def raw_end_def uint_word_ariths)

lemma overlayStart_loop_max_raw_end:
  assumes "list_all raw_end_fits secs"
  shows "overlayStart_loop secs 0 = max_raw_end secs"
proof -
  from assms have "\<And>s. s \<in> set secs \<Longrightarrow> uint (Offset s + Size s) = raw_end s"
    by (simp add: list_all_iff raw_end_no_wrap)
  then have "(\<lambda>s. uint (Offset s + Size s)) ` set secs = raw_end ` set secs"
    by (intro image_cong) simp_all
  then show ?thesis by (simp add: overlayStart_loop_Max max_raw_end_def)
qed

lemma max_raw_end_nonneg: "0 \<le> max_raw_end secs"
  by (simp add: max_raw_end_def)

text \<open>
  C10 (as amended). For a file whose \<open>size\<close> is the length of its bytes and whose sections
  all have \<open>Offset + Size\<close> below \<open>2\<^sup>3\<^sup>2\<close>, the overlay starts at the largest
  \<open>Offset + Size\<close> of a section (0 without sections). With \<open>N\<close> the number of bytes from
  there to the end of the file, \<open>LookupOverlay\<close> reports \<open>ErrNoOverlay\<close> when \<open>N \<le> 0\<close>,
  the limit error when \<open>N\<close> exceeds \<open>limitsize\<close>, and otherwise returns the bytes from the
  overlay start to the end of the file, \<open>N\<close> of them. The default limit is 64 MiB.
\<close>

theorem LookupOverlay_trailing_bytes:
  assumes "list_all raw_end_fits (sections f)"
    and "pe_size f = int (length (pe_fd f))"
  shows "LookupOverlay f limitsize =
           (if pe_size f - max_raw_end (sections f) \<le> 0 then Inl NoOverlay
            else if pe_size f - max_raw_end (sections f) > limitsize then Inl OverlayOverLimit
            else Inr (drop (nat (max_raw_end (sections f))) (pe_fd f)))
         \<and> int (length (drop (nat (max_raw_end (sections f))) (pe_fd f)))
             = max 0 (pe_size f - max_raw_end (sections f))
         \<and> LimitOverlaySize = 64 * 2 ^ 20"
proof -
  let ?start = "max_raw_end (sections f)"
  have start: "overlayStart_loop (sections f) 0 = ?start"
    by (rule overlayStart_loop_max_raw_end) (rule assms(1))
  have nonneg: "0 \<le> ?start" by (rule max_raw_end_nonneg)
  have read: "ReadFull_at (pe_fd f) ?start (pe_size f - ?start)
                = Inr (drop (nat ?start) (pe_fd f))"
    if "pe_size f - ?start > 0"
    using that nonneg assms(2) by (simp add: ReadFull_at_def bytes_at_def)
  have "LookupOverlay f limitsize =
           (if pe_size f - ?start \<le> 0 then Inl NoOverlay
            else if pe_size f - ?start > limitsize then Inl OverlayOverLimit
            else Inr (drop (nat ?start) (pe_fd f)))"
    using read by (simp add: LookupOverlay_def start Let_def)
  moreover have "int (length (drop (nat ?start) (pe_fd f))) = max 0 (pe_size f - ?start)"
    using nonneg assms(2) by simp
  moreover have "LimitOverlaySize = 64 * 2 ^ 20"
    by (simp add: LimitOverlaySize_def)
  ultimately show ?thesis by blast
qed

theorem LookupOverlay_trailing_bytes_witness:
  "list_all raw_end_fits [mk_section 0 0 0x10 0x20, mk_section 0 0 0x20 0x1C]
   \<and> pe_size (overlay_sample [mk_section 0 0 0x10 0x20, mk_section 0 0 0x20 0x1C])
       = int (length (pe_fd (overlay_sample [mk_section 0 0 0x10 0x20, mk_section 0 0 0x20 0x1C])))
   \<and> LookupOverlay (overlay_sample [mk_section 0 0 0x10 0x20, mk_section 0 0 0x20 0x1C])
        LimitOverlaySize = Inr [1, 2, 3, 4]
   \<and> LookupOverlay (overlay_sample [mk_section 0 0 0x10 0x20, mk_section 0 0 0x20 0x1C]) 3
       = Inl OverlayOverLimit
   \<and> LookupOverlay (overlay_sample [mk_section 0 0 0x10 0x20, mk_section 0 0 0x20 0x20])
        LimitOverlaySize = Inl NoOverlay"
proof -
  let ?a = "[mk_section 0 0 0x10 0x20, mk_section 0 0 0x20 0x1C]"
  let ?b = "[mk_section 0 0 0x10 0x20, mk_section 0 0 0x20 0x20]"
  have fa: "list_all raw_end_fits (sections (overlay_sample ?a))"
    and fb: "list_all raw_end_fits (sections (overlay_sample ?b))"
    by (simp_all add: overlay_sample_def raw_end_fits_def raw_end_def mk_section_def)
  have sa: "pe_size (overlay_sample ?a) = int (length (pe_fd (overlay_sample ?a)))"
    and sb: "pe_size (overlay_sample ?b) = int (length (pe_fd (overlay_sample ?b)))"
    by (simp_all add: overlay_sample_def)
  have ma: "max_raw_end (sections (overlay_sample ?a)) = 60"
    and mb: "max_raw_end (sections (overlay_sample ?b)) = 64"
    by (simp_all add: overlay_sample_def max_raw_end_def raw_end_def mk_section_def)
  from LookupOverlay_trailing_bytes [OF fa sa, of LimitOverlaySize]
    LookupOverlay_trailing_bytes [OF fa sa, of 3]
    LookupOverlay_trailing_bytes [OF fb sb, of LimitOverlaySize]
    fa sa
  show ?thesis
    by (simp add: ma mb) (simp add: overlay_sample_def LimitOverlaySize_def)
qed

text \<open>
  C10 as stated fails where \<open>Offset + Size\<close> passes \<open>2\<^sup>3\<^sup>2\<close>: for a section at offset
  \<open>0xFFFFFFF0\<close> of size \<open>0x20\<close> in a file of 20 bytes the largest \<open>Offset + Size\<close> lies
  far behind the end of the file, but the 32-bit sum is 16 and the last four bytes are
  returned as overlay.
\<close>

theorem LookupOverlay_wraps_counterexample:
  "pe_size \<lparr>pe_fd = replicate 16 0 @ [1, 2, 3, 4], pe_size = 20,
            sections = [mk_section 0 0 0xFFFFFFF0 0x20]\<rparr>
     - max_raw_end [mk_section 0 0 0xFFFFFFF0 0x20] = 20 - 0x100000010
   \<and> LookupOverlay \<lparr>pe_fd = replicate 16 0 @ [1, 2, 3, 4], pe_size = 20,
                     sections = [mk_section 0 0 0xFFFFFFF0 0x20]\<rparr> LimitOverlaySize
       = Inr [1, 2, 3, 4]"
  by (simp add: max_raw_end_def raw_end_def mk_section_def LookupOverlay_def Let_def
      ReadFull_at_def bytes_at_def LimitOverlaySize_def)

section \<open>Results about the end of the central directory\<close>

lemma findSignatureInBlock_from_unfold:
  "findSignatureInBlock_from b i =
     (if sig_ok b i then int i else if i = 0 then - 1 else findSignatureInBlock_from b (i - 1))"
  by (cases i) simp_all

lemma sig_ok_drop:
  assumes "i + 22 \<le> length b"
  shows "sig_ok b i \<longleftrightarrow> sig_ok (drop i b) 0"
  using assms by (auto simp: sig_ok_def directoryEndLen_def add.commute)

lemma sig_ok_eocd_sample: "sig_ok (eocd_sample n0 n1 s0 s1 s2 s3) 0"
  by (simp add: sig_ok_def eocd_sample_def directoryEndLen_def)

lemma length_eocd_sample: "length (eocd_sample n0 n1 s0 s1 s2 s3) = 22"
  by (simp add: eocd_sample_def)

lemma findSignatureInBlock_last:
  assumes "length pre = k"
  shows "findSignatureInBlock (pre @ eocd_sample n0 n1 s0 s1 s2 s3) = int k"
proof -
  let ?b = "pre @ eocd_sample n0 n1 s0 s1 s2 s3"
  have len: "length ?b = k + 22" using assms by (simp add: length_eocd_sample)
  have "sig_ok ?b k"
    using assms by (subst sig_ok_drop) (simp_all add: length_eocd_sample sig_ok_eocd_sample)
  then have "findSignatureInBlock_from ?b k = int k"
    by (subst findSignatureInBlock_from_unfold) simp
  then show ?thesis
    using assms by (simp add: findSignatureInBlock_def directoryEndLen_def length_eocd_sample)
qed

lemma ReadAt_whole:
  "ReadAt (reader_of bytes) (int (length bytes)) 0 = Inr bytes"
  by (simp add: ReadAt_def reader_of_def ReadFull_at_def bytes_at_def)

lemma findDirectoryEnd_loop_first_small:
  assumes "length bytes \<le> 1024" and "findSignatureInBlock bytes = p" and "0 \<le> p"
  shows "findDirectoryEnd_loop (reader_of bytes) 0 offrange = Inr (0, p, drop (nat p) bytes)"
proof -
  define r where "r = reader_of bytes"
  have blen: "(if 1024 > zip_size r then zip_size r else 1024) = zip_size r"
    using assms(1) by (simp add: r_def reader_of_def)
  have rd: "ReadAt r (zip_size r) 0 = Inr bytes"
    using ReadAt_whole [of bytes] by (simp add: r_def reader_of_def)
  have "findDirectoryEnd_loop r 0 offrange = Inr (0, p, drop (nat p) bytes)"
    unfolding offrange_def findDirectoryEnd_loop.simps blen Let_def
    using assms(2,3) by (simp add: rd)
  then show ?thesis by (simp add: r_def)
qed

lemma findDirectoryEnd_loop_small:
  assumes "length pre = k" and "k + 22 \<le> 1024"
  shows "findDirectoryEnd_loop (reader_of (pre @ eocd_sample n0 n1 s0 s1 s2 s3)) 0 offrange
           = Inr (0, int k, eocd_sample n0 n1 s0 s1 s2 s3)"
  using findDirectoryEnd_loop_first_small [OF _ findSignatureInBlock_last [OF assms(1)],
      of n0 n1 s0 s1 s2 s3] assms
  by (simp add: length_eocd_sample)

lemma readDirectoryEnd_small:
  assumes "length pre = k" and "k + 22 \<le> 1024"
  shows "readDirectoryEnd behind (reader_of (pre @ eocd_sample n0 n1 s0 s1 s2 s3))
           = decodeDirectoryEnd behind (reader_of (pre @ eocd_sample n0 n1 s0 s1 s2 s3)) (int k)
               (eocd_sample n0 n1 s0 s1 s2 s3)"
  by (simp add: readDirectoryEnd_def findDirectoryEnd_loop_small [OF assms])

lemma le_nat_replicate_zero: "le_nat (replicate n 0) = 0"
  by (induction n) simp_all

lemma le_nat_zeros_append: "le_nat (replicate n 0 @ bs) = 256 ^ n * le_nat bs"
  by (induction n) simp_all

lemma length_zip64_sample:
  "length rec64 = 56 \<Longrightarrow> length (zip64_sample rec64 (eocd_sample n0 n1 s0 s1 s2 s3)) = 102"
  by (simp add: zip64_sample_def zip64_loc_sample_def eocd_sample_def)

lemma readDirectoryEnd_zip64_sample:
  assumes "length rec64 = 56"
  shows "readDirectoryEnd behind (reader_of (zip64_sample rec64 (eocd_sample n0 n1 s0 s1 s2 s3)))
           = decodeDirectoryEnd behind (reader_of (zip64_sample rec64 (eocd_sample n0 n1 s0 s1 s2 s3))) 80
               (eocd_sample n0 n1 s0 s1 s2 s3)"
proof -
  have "zip64_sample rec64 (eocd_sample n0 n1 s0 s1 s2 s3)
          = ([0, 0, 0, 0] @ rec64 @ zip64_loc_sample) @ eocd_sample n0 n1 s0 s1 s2 s3"
    by (simp add: zip64_sample_def)
  moreover have "length ([0, 0, 0, 0] @ rec64 @ zip64_loc_sample) = 80"
    using assms by (simp add: zip64_loc_sample_def)
  ultimately show ?thesis
    using readDirectoryEnd_small [where pre = "[0, 0, 0, 0] @ rec64 @ zip64_loc_sample"
        and k = 80 and ?n0.0 = n0 and ?n1.0 = n1 and ?s0.0 = s0 and ?s1.0 = s1 and ?s2.0 = s2
        and ?s3.0 = s3 and behind = behind]
    by simp
qed

lemma ReadAt_locator:
  assumes "length rec64 = 56"
  shows "ReadAt (reader_of (zip64_sample rec64 eocd)) 20 60 = Inr zip64_loc_sample"
  using assms
  by (simp add: ReadAt_def reader_of_def ReadFull_at_def bytes_at_def zip64_sample_def
      zip64_loc_sample_def)

lemma ReadAt_record:
  assumes "length rec64 = 56"
  shows "ReadAt (reader_of (zip64_sample rec64 eocd)) 56 4 = Inr rec64"
  using assms
  by (simp add: ReadAt_def reader_of_def ReadFull_at_def bytes_at_def zip64_sample_def)

lemma findDirectory64End_zip64_sample:
  assumes "length rec64 = 56"
  shows "findDirectory64End (reader_of (zip64_sample rec64 eocd)) 80 = Inr 4"
  by (simp add: findDirectory64End_def directory64LocLen_def ReadAt_locator [OF assms])
    (simp add: zip64_loc_sample_def Read32_def Read64_def le32_def le64_def
      directory64LocSignature_def)

text \<open>
  Every Zip64 end record with the right signature is decoded four bytes behind its
  fields: the cursor discards 16 bytes behind the signature, where the record has 12
  before the disk number. The fields of the record stand at the bytes 16, 20, 24, 32, 40
  and 48; the decoder takes them from the bytes 20, 24, 28, 36, 44 and 52, the last one
  with four bytes from behind the buffer.
\<close>

lemma readDirectory64End_fields:
  assumes "ReadAt r 56 offset = Inr buf" and "length buf = 56"
    and "le32 buf = directory64EndSignature"
  shows "readDirectory64End behind r offset d
           = Inr (d\<lparr>diskNbr := le32 (drop 20 buf), dirDiskNbr := le32 (drop 24 buf),
                    dirRecordsThisDisk := le64 (drop 28 buf),
                    directoryRecords := le64 (drop 36 buf),
                    directorySize := le64 (drop 44 buf),
                    directoryOffset := le64 (drop 52 buf @ behind)\<rparr>)"
  using assms
  by (simp add: readDirectory64End_def directory64EndLen_def Read32_def Read64_def Discard_def)

text \<open>
  C1. \<open>readDirectoryEnd\<close> compares the directory size with \<open>0xFFFF\<close>, not with its sentinel
  \<open>0xFFFFFFFF\<close>. An archive whose end record holds the sentinel in the directory size
  alone, behind a Zip64 end record and its locator, is decoded without the Zip64 record:
  the size stays \<open>0xFFFFFFFF\<close>. An archive whose directory size is \<open>0xFFFF\<close>, with no
  field at its sentinel, has its locator followed: with 56 zero bytes where the locator
  points the decoder fails, and the same end record without a locator is accepted. None
  of the three results depends on the bytes \<open>behind\<close> the buffer of \<open>readDirectory64End\<close>.
\<close>

theorem readDirectoryEnd_size_sentinel:
  "readDirectoryEnd behind (reader_of (zip64_sample zip64_end_sample (eocd_sample 5 0 0xFF 0xFF 0xFF 0xFF)))
     = Inr \<lparr>diskNbr = 0, dirDiskNbr = 0, dirRecordsThisDisk = 5, directoryRecords = 5,
            directorySize = 0xFFFFFFFF, directoryOffset = 0, commentLen = 0, comment = []\<rparr>
   \<and> readDirectoryEnd behind (reader_of (zip64_sample (replicate 56 0) (eocd_sample 5 0 0xFF 0xFF 0 0)))
     = Inl NotValidZip
   \<and> readDirectoryEnd behind (reader_of (replicate 80 0 @ eocd_sample 5 0 0xFF 0xFF 0 0))
     = Inr \<lparr>diskNbr = 0, dirDiskNbr = 0, dirRecordsThisDisk = 5, directoryRecords = 5,
            directorySize = 0xFFFF, directoryOffset = 0, commentLen = 0, comment = []\<rparr>"
proof -
  have l1: "length zip64_end_sample = 56" by (simp add: zip64_end_sample_def)
  have l2: "length (replicate 56 (0 :: u8)) = 56" by simp
  have a: "decodeDirectoryEnd behind
             (reader_of (zip64_sample zip64_end_sample (eocd_sample 5 0 0xFF 0xFF 0xFF 0xFF))) 80
             (eocd_sample 5 0 0xFF 0xFF 0xFF 0xFF)
     = Inr \<lparr>diskNbr = 0, dirDiskNbr = 0, dirRecordsThisDisk = 5, directoryRecords = 5,
            directorySize = 0xFFFFFFFF, directoryOffset = 0, commentLen = 0, comment = []\<rparr>"
    by (simp add: decodeDirectoryEnd_def reader_of_def length_zip64_sample [OF l1])
      (simp add: eocd_sample_def Discard_def Read16_def Read32_def le16_def le32_def)
  have sig: "le32 (replicate 56 0) \<noteq> directory64EndSignature"
    by (simp add: le32_def directory64EndSignature_def le_nat_replicate_zero)
  have r64: "readDirectory64End behind (reader_of (zip64_sample (replicate 56 0) eocd)) 4 d
             = Inl NotValidZip" for d eocd
    using sig
    by (simp add: readDirectory64End_def directory64EndLen_def ReadAt_record [OF l2] Read32_def)
  have b: "decodeDirectoryEnd behind
             (reader_of (zip64_sample (replicate 56 0) (eocd_sample 5 0 0xFF 0xFF 0 0))) 80
             (eocd_sample 5 0 0xFF 0xFF 0 0) = Inl NotValidZip"
    by (simp add: decodeDirectoryEnd_def findDirectory64End_zip64_sample [OF l2] r64
        eocd_sample_def Discard_def Read16_def Read32_def le16_def le32_def)
  have f: "findDirectory64End (reader_of (replicate 80 0 @ eocd)) 80 = Inr (- 1)" for eocd
    by (simp add: findDirectory64End_def directory64LocLen_def ReadAt_def reader_of_def
        ReadFull_at_def bytes_at_def Read32_def le32_def directory64LocSignature_def
        le_nat_replicate_zero)
  have c: "decodeDirectoryEnd behind (reader_of (replicate 80 0 @ eocd_sample 5 0 0xFF 0xFF 0 0)) 80
             (eocd_sample 5 0 0xFF 0xFF 0 0)
     = Inr \<lparr>diskNbr = 0, dirDiskNbr = 0, dirRecordsThisDisk = 5, directoryRecords = 5,
            directorySize = 0xFFFF, directoryOffset = 0, commentLen = 0, comment = []\<rparr>"
    by (simp add: decodeDirectoryEnd_def f eocd_sample_def Discard_def Read16_def Read32_def
        le16_def le32_def)
      (simp add: reader_of_def)
  show ?thesis
    by (simp add: readDirectoryEnd_zip64_sample [OF l1] readDirectoryEnd_zip64_sample [OF l2]
        readDirectoryEnd_small [where k = 80] a b c)
qed

section \<open>Results about \<open>Initialize\<close>\<close>

lemma records_gt_iff:
  assumes "0 \<le> sz" and "sz < 2 ^ 63"
  shows "(n > (word_of_int sz :: u64) div of_nat fileHeaderLen) \<longleftrightarrow> int (unat n) > sz div 30"
proof -
  have u: "unat (word_of_int sz :: u64) = nat sz"
    using assms by (simp add: unat_eq_nat_uint uint_word_of_int take_bit_int_eq_self)
  have "unat ((word_of_int sz :: u64) div of_nat fileHeaderLen) = nat sz div 30"
    by (simp add: unat_div u fileHeaderLen_def)
  then have "(n > (word_of_int sz :: u64) div of_nat fileHeaderLen) \<longleftrightarrow> unat n > nat sz div 30"
    by (simp add: word_less_nat_alt)
  also have "\<dots> \<longleftrightarrow> int (unat n) > sz div 30"
  proof -
    have "int (nat sz div 30) = sz div 30"
      using assms(1) by (simp add: zdiv_int)
    then show ?thesis by linarith
  qed
  finally show ?thesis .
qed

text \<open>
  The test of \<open>Initialize\<close> on the count that \<open>readDirectoryEnd\<close> has decoded: when it is
  greater than the file size divided by 30 (\<open>fileHeaderLen\<close>), \<open>Initialize\<close> returns the
  error about the impossible table of contents, and the only call it has made is the one
  to \<open>readDirectoryEnd\<close>: no \<open>PositionAt\<close>, no \<open>readDirectoryHeader\<close>. \<open>size\<close> is an
  \<open>int64_t\<close> and not negative. So it is for the file of 100 bytes whose end record
  declares 1000 entries.
\<close>

lemma Initialize_count_test:
  assumes "readDirectoryEnd behind r = Inr d"
    and "0 \<le> zip_size r" and "zip_size r < 2 ^ 63"
    and "int (unat (directoryRecords d)) > zip_size r div 30"
  shows "Initialize behind r
           = ([Call_readDirectoryEnd], Inl (ImpossibleTOC (directoryRecords d) (zip_size r)))"
  using assms by (simp add: Initialize_def records_gt_iff)

lemma readDirectoryEnd_toc_sample:
  "readDirectoryEnd behind (reader_of toc_sample)
     = Inr \<lparr>diskNbr = 0, dirDiskNbr = 0, dirRecordsThisDisk = 1000, directoryRecords = 1000,
            directorySize = 0, directoryOffset = 0, commentLen = 0, comment = []\<rparr>"
  unfolding toc_sample_def
  by (subst readDirectoryEnd_small [where k = 78])
    (simp_all add: decodeDirectoryEnd_def eocd_sample_def Discard_def Read16_def Read32_def
      le16_def le32_def reader_of_def)

lemma Initialize_toc_sample:
  "Initialize behind (reader_of toc_sample)
     = ([Call_readDirectoryEnd], Inl (ImpossibleTOC 1000 100))"
proof -
  have sz: "zip_size (reader_of toc_sample) = 100"
    by (simp add: reader_of_def toc_sample_def eocd_sample_def)
  from Initialize_count_test [OF readDirectoryEnd_toc_sample, of behind]
  show ?thesis by (simp add: sz)
qed

lemma length_zip64_count_sample: "length zip64_count_sample = 56"
  by (simp add: zip64_count_sample_def)

lemma readDirectory64End_count_sample:
  "readDirectory64End behind (reader_of (zip64_sample zip64_count_sample eocd)) 4 d
     = Inr (d\<lparr>diskNbr := 0, dirDiskNbr := 0x989680, dirRecordsThisDisk := 0x98968000000000,
              directoryRecords := 0, directorySize := 0,
              directoryOffset := le64 (replicate 4 0 @ behind)\<rparr>)"
proof -
  have sig: "le32 zip64_count_sample = directory64EndSignature"
    by (simp add: zip64_count_sample_def le32_def directory64EndSignature_def)
  have v: "le32 (drop 20 zip64_count_sample) = 0"
    "le32 (drop 24 zip64_count_sample) = 0x989680"
    "le64 (drop 28 zip64_count_sample) = 0x98968000000000"
    "le64 (drop 36 zip64_count_sample) = 0"
    "le64 (drop 44 zip64_count_sample) = 0"
    "drop 52 zip64_count_sample = replicate 4 0"
    by (simp_all add: zip64_count_sample_def le32_def le64_def le_nat_replicate_zero
        le_nat_zeros_append)
  show ?thesis
    by (simp only: readDirectory64End_fields
        [OF ReadAt_record [OF length_zip64_count_sample] length_zip64_count_sample sig] v)
qed

text \<open>
  C5. A file of 102 bytes: an end record whose entry count is at its sentinel \<open>0xFFFF\<close>,
  behind the locator of a Zip64 end record that declares 10000000 entries, where
  \<open>102 / 30 = 3\<close>. \<open>readDirectory64End\<close> takes \<open>directoryRecords\<close> from the bytes 36 to 43
  of the record, the upper half of the declared count and the lower half of the directory
  size, which is 0; the declared count ends up in \<open>dirDiskNbr\<close> and in the upper half of
  \<open>dirRecordsThisDisk\<close>. Whatever lies behind the buffer, \<open>Initialize\<close> does not return the
  error about the impossible table of contents: when the directory offset that was read
  partly from behind the buffer is not negative as an \<open>int64_t\<close>, \<open>Initialize\<close> goes on to
  \<open>PositionAt\<close> and returns an archive without entries.
\<close>

theorem Initialize_zip64_count_misread:
  "length (zip64_sample zip64_count_sample (eocd_sample 0xFF 0xFF 0 0 0 0)) = 102
   \<and> readDirectoryEnd behind
         (reader_of (zip64_sample zip64_count_sample (eocd_sample 0xFF 0xFF 0 0 0 0)))
       = (if sint (le64 (replicate 4 0 @ behind)) < 0 then Inl NotValidZip
          else Inr \<lparr>diskNbr = 0, dirDiskNbr = 0x989680,
                     dirRecordsThisDisk = 0x98968000000000, directoryRecords = 0,
                     directorySize = 0, directoryOffset = le64 (replicate 4 0 @ behind),
                     commentLen = 0, comment = []\<rparr>)
   \<and> Initialize behind
         (reader_of (zip64_sample zip64_count_sample (eocd_sample 0xFF 0xFF 0 0 0 0)))
       = (if sint (le64 (replicate 4 0 @ behind)) < 0 then ([Call_readDirectoryEnd], Inl NotValidZip)
          else ([Call_readDirectoryEnd, Call_PositionAt (le64 (replicate 4 0 @ behind))],
                Inr \<lparr>r_comment = [], files = [], r_uncompressedSize = 0,
                      r_compressedSize = 0\<rparr>))"
proof -
  define S where "S = zip64_sample zip64_count_sample (eocd_sample 0xFF 0xFF 0 0 0 0)"
  define v where "v = le64 (replicate 4 0 @ behind)"
  have len: "length S = 102"
    by (simp add: S_def length_zip64_sample [OF length_zip64_count_sample])
  have sz: "zip_size (reader_of S) = 102"
    by (simp add: reader_of_def len)
  have dec: "decodeDirectoryEnd behind (reader_of S) 80 (eocd_sample 0xFF 0xFF 0 0 0 0)
       = (if sint v < 0 then Inl NotValidZip
          else Inr \<lparr>diskNbr = 0, dirDiskNbr = 0x989680,
                     dirRecordsThisDisk = 0x98968000000000, directoryRecords = 0,
                     directorySize = 0, directoryOffset = v, commentLen = 0, comment = []\<rparr>)"
    unfolding S_def v_def
    by (simp add: decodeDirectoryEnd_def
        findDirectory64End_zip64_sample [OF length_zip64_count_sample]
        readDirectory64End_count_sample eocd_sample_def Discard_def Read16_def Read32_def
        le16_def le32_def)
      (simp add: reader_of_def zip64_sample_def)
  have rd: "readDirectoryEnd behind (reader_of S)
       = (if sint v < 0 then Inl NotValidZip
          else Inr \<lparr>diskNbr = 0, dirDiskNbr = 0x989680,
                     dirRecordsThisDisk = 0x98968000000000, directoryRecords = 0,
                     directorySize = 0, directoryOffset = v, commentLen = 0, comment = []\<rparr>)"
    using dec
    by (simp add: S_def readDirectoryEnd_zip64_sample [OF length_zip64_count_sample])
  have init: "Initialize behind (reader_of S)
       = (if sint v < 0 then ([Call_readDirectoryEnd], Inl NotValidZip)
          else ([Call_readDirectoryEnd, Call_PositionAt v],
                Inr \<lparr>r_comment = [], files = [], r_uncompressedSize = 0,
                      r_compressedSize = 0\<rparr>))"
    by (simp add: Initialize_def rd sz fileHeaderLen_def)
  from len rd init show ?thesis
    unfolding S_def v_def by simp
qed

section \<open>Results about the search for the end record\<close>

lemma findSignatureInBlock_from_cases:
  "(findSignatureInBlock_from b i = - 1 \<and> (\<forall>j \<le> i. \<not> sig_ok b j))
   \<or> (\<exists>p \<le> i. findSignatureInBlock_from b i = int p \<and> sig_ok b p
          \<and> (\<forall>j. p < j \<and> j \<le> i \<longrightarrow> \<not> sig_ok b j))"
proof (induction i)
  case 0
  then show ?case by auto
next
  case (Suc i)
  show ?case
  proof (cases "sig_ok b (Suc i)")
    case True
    then show ?thesis by auto
  next
    case False
    from Suc show ?thesis
    proof
      assume "findSignatureInBlock_from b i = - 1 \<and> (\<forall>j \<le> i. \<not> sig_ok b j)"
      with False show ?thesis by (auto simp: le_Suc_eq)
    next
      assume "\<exists>p \<le> i. findSignatureInBlock_from b i = int p \<and> sig_ok b p
          \<and> (\<forall>j. p < j \<and> j \<le> i \<longrightarrow> \<not> sig_ok b j)"
      then obtain p where "p \<le> i" "findSignatureInBlock_from b i = int p" "sig_ok b p"
        "\<forall>j. p < j \<and> j \<le> i \<longrightarrow> \<not> sig_ok b j" by blast
      with False have "p \<le> Suc i \<and> findSignatureInBlock_from b (Suc i) = int p \<and> sig_ok b p
          \<and> (\<forall>j. p < j \<and> j \<le> Suc i \<longrightarrow> \<not> sig_ok b j)"
        by (auto simp: le_Suc_eq)
      then show ?thesis by blast
    qed
  qed
qed

lemma findSignatureInBlock_cases:
  "(findSignatureInBlock b = - 1 \<and> (\<forall>j. j + 22 \<le> length b \<longrightarrow> \<not> sig_ok b j))
   \<or> (\<exists>p. findSignatureInBlock b = int p \<and> p + 22 \<le> length b \<and> sig_ok b p
          \<and> (\<forall>j. p < j \<and> j + 22 \<le> length b \<longrightarrow> \<not> sig_ok b j))"
proof (cases "length b < 22")
  case True
  then show ?thesis by (simp add: findSignatureInBlock_def directoryEndLen_def)
next
  case False
  then have eq: "findSignatureInBlock b = findSignatureInBlock_from b (length b - 22)"
    by (simp add: findSignatureInBlock_def directoryEndLen_def)
  have le: "j \<le> length b - 22 \<longleftrightarrow> j + 22 \<le> length b" for j
    using False by auto
  from findSignatureInBlock_from_cases [of b "length b - 22"] show ?thesis
    unfolding eq le by blast
qed

lemma sig_ok_shift:
  assumes "m \<le> length fd" and "j + 22 \<le> length fd - m"
  shows "sig_ok (drop m fd) j \<longleftrightarrow> sig_ok fd (m + j)"
  using assms by (auto simp: sig_ok_def directoryEndLen_def ac_simps)

lemma block_cases:
  assumes "m \<le> length fd"
  shows "(findSignatureInBlock (drop m fd) = - 1 \<and> (\<forall>k \<ge> m. \<not> eocd_at fd k))
   \<or> (\<exists>K \<ge> m. findSignatureInBlock (drop m fd) = int (K - m) \<and> eocd_at fd K
          \<and> (\<forall>k. eocd_at fd k \<longrightarrow> k \<le> K))"
proof -
  have shift: "sig_ok (drop m fd) (k - m) \<longleftrightarrow> sig_ok fd k" if "m \<le> k" "k + 22 \<le> length fd" for k
    using sig_ok_shift [OF assms, of "k - m"] that by simp
  from findSignatureInBlock_cases [of "drop m fd"] show ?thesis
  proof
    assume a: "findSignatureInBlock (drop m fd) = - 1
      \<and> (\<forall>j. j + 22 \<le> length (drop m fd) \<longrightarrow> \<not> sig_ok (drop m fd) j)"
    have "\<not> eocd_at fd k" if "m \<le> k" for k
    proof
      assume e: "eocd_at fd k"
      then have len: "k + 22 \<le> length fd" by (simp add: eocd_at_def directoryEndLen_def)
      with that have "(k - m) + 22 \<le> length (drop m fd)" by simp
      with a have "\<not> sig_ok (drop m fd) (k - m)" by blast
      with shift [OF that len] e show False by (simp add: eocd_at_def)
    qed
    with a show ?thesis by blast
  next
    assume "\<exists>p. findSignatureInBlock (drop m fd) = int p \<and> p + 22 \<le> length (drop m fd)
      \<and> sig_ok (drop m fd) p
      \<and> (\<forall>j. p < j \<and> j + 22 \<le> length (drop m fd) \<longrightarrow> \<not> sig_ok (drop m fd) j)"
    then obtain p where p: "findSignatureInBlock (drop m fd) = int p"
      "p + 22 \<le> length (drop m fd)" "sig_ok (drop m fd) p"
      "\<forall>j. p < j \<and> j + 22 \<le> length (drop m fd) \<longrightarrow> \<not> sig_ok (drop m fd) j" by blast
    let ?K = "m + p"
    from p(2) have lenK: "?K + 22 \<le> length fd" by simp
    from shift [of ?K] lenK p(3) have "eocd_at fd ?K"
      by (simp add: eocd_at_def directoryEndLen_def)
    moreover have "k \<le> ?K" if e: "eocd_at fd k" for k
    proof (rule ccontr)
      assume "\<not> k \<le> ?K"
      then have gt: "?K < k" by simp
      from e have len: "k + 22 \<le> length fd" by (simp add: eocd_at_def directoryEndLen_def)
      from gt len have "p < k - m \<and> (k - m) + 22 \<le> length (drop m fd)" by auto
      with p(4) have "\<not> sig_ok (drop m fd) (k - m)" by blast
      moreover from gt have "m \<le> k" by simp
      ultimately show False using shift [of k] len e by (simp add: eocd_at_def)
    qed
    ultimately have "?K \<ge> m \<and> findSignatureInBlock (drop m fd) = int (?K - m) \<and> eocd_at fd ?K
          \<and> (\<forall>k. eocd_at fd k \<longrightarrow> k \<le> ?K)"
      using p(1) by simp
    then show ?thesis by blast
  qed
qed

lemma findDirectoryEnd_loop_pass:
  assumes "0 < rng"
  shows "findDirectoryEnd_loop (reader_of fd) i (rng # rngs) =
           (let m = length fd - nat rng;
                p = findSignatureInBlock (drop m fd)
            in if p \<ge> 0 then Inr (i, int m + p, drop (nat p) (drop m fd))
               else if i = 1 \<or> int (length fd) \<le> rng then Inl NotValidZip
               else findDirectoryEnd_loop (reader_of fd) (Suc i) rngs)"
proof -
  define r where "r = reader_of fd"
  define blen where "blen = (if rng > zip_size r then zip_size r else rng)"
  define m where "m = length fd - nat rng"
  have sz: "zip_size r = int (length fd)" by (simp add: r_def reader_of_def)
  have pos: "zip_size r - blen = int m" using assms by (auto simp: blen_def m_def sz)
  have rd: "ReadAt r blen (int m) = Inr (drop m fd)"
    using assms
    by (auto simp: ReadAt_def ReadFull_at_def bytes_at_def blen_def m_def sz r_def reader_of_def)
  have whole: "blen = zip_size r \<longleftrightarrow> int (length fd) \<le> rng"
    by (auto simp: blen_def sz)
  have "findDirectoryEnd_loop r i (rng # rngs) =
           (let p = findSignatureInBlock (drop m fd)
            in if p \<ge> 0 then Inr (i, int m + p, drop (nat p) (drop m fd))
               else if i = 1 \<or> int (length fd) \<le> rng then Inl NotValidZip
               else findDirectoryEnd_loop r (Suc i) rngs)"
    unfolding findDirectoryEnd_loop.simps blen_def [symmetric] Let_def pos rd whole
    by simp
  then show ?thesis by (simp add: r_def m_def Let_def)
qed

lemma findDirectoryEnd_loop_cases:
  "(findDirectoryEnd_loop (reader_of fd) 0 offrange = Inl NotValidZip
      \<and> (\<forall>k. eocd_at fd k \<longrightarrow> k + 66560 < length fd))
   \<or> (\<exists>K. findDirectoryEnd_loop (reader_of fd) 0 offrange = Inr (0, int K, drop K fd)
          \<and> is_last_eocd fd K \<and> length fd \<le> K + 1024)
   \<or> (\<exists>K. findDirectoryEnd_loop (reader_of fd) 0 offrange = Inr (1, int K, drop K fd)
          \<and> is_last_eocd fd K \<and> K + 1024 < length fd \<and> length fd \<le> K + 66560)"
proof -
  let ?n = "length fd"
  let ?m1 = "?n - 1024"
  let ?m2 = "?n - 66560"
  have pass1: "findDirectoryEnd_loop (reader_of fd) 0 offrange =
           (let p = findSignatureInBlock (drop ?m1 fd)
            in if p \<ge> 0 then Inr (0, int ?m1 + p, drop (nat p) (drop ?m1 fd))
               else if int ?n \<le> 1024 then Inl NotValidZip
               else findDirectoryEnd_loop (reader_of fd) (Suc 0) [66560])"
    using findDirectoryEnd_loop_pass [of 1024 fd 0 "[66560]"] by (simp add: offrange_def Let_def)
  have pass2: "findDirectoryEnd_loop (reader_of fd) (Suc 0) [66560] =
           (let p = findSignatureInBlock (drop ?m2 fd)
            in if p \<ge> 0 then Inr (1, int ?m2 + p, drop (nat p) (drop ?m2 fd))
               else Inl NotValidZip)"
    using findDirectoryEnd_loop_pass [of 66560 fd "Suc 0" "[]"] by (simp add: Let_def)
  have le1: "?m1 \<le> ?n" and le2: "?m2 \<le> ?n" by simp_all
  from block_cases [OF le1] show ?thesis
  proof
    assume "\<exists>K \<ge> ?m1. findSignatureInBlock (drop ?m1 fd) = int (K - ?m1) \<and> eocd_at fd K
          \<and> (\<forall>k. eocd_at fd k \<longrightarrow> k \<le> K)"
    then obtain K where K: "?m1 \<le> K" "findSignatureInBlock (drop ?m1 fd) = int (K - ?m1)"
      "eocd_at fd K" "\<forall>k. eocd_at fd k \<longrightarrow> k \<le> K" by blast
    have idx: "nat (int K - int ?m1) + ?m1 = K" using K(1) by linarith
    have "findDirectoryEnd_loop (reader_of fd) 0 offrange = Inr (0, int K, drop K fd)"
      using K(1) by (simp add: pass1 K(2) Let_def idx)
    moreover have "is_last_eocd fd K" using K(3,4) by (simp add: is_last_eocd_def)
    moreover have "?n \<le> K + 1024" using K(1) by simp
    ultimately show ?thesis by blast
  next
    assume none1: "findSignatureInBlock (drop ?m1 fd) = - 1 \<and> (\<forall>k \<ge> ?m1. \<not> eocd_at fd k)"
    show ?thesis
    proof (cases "?n \<le> 1024")
      case True
      with none1 have "findDirectoryEnd_loop (reader_of fd) 0 offrange = Inl NotValidZip"
        by (simp add: pass1 Let_def)
      moreover from True none1 have "\<forall>k. \<not> eocd_at fd k" by simp
      ultimately show ?thesis by simp
    next
      case False
      with none1 have to2: "findDirectoryEnd_loop (reader_of fd) 0 offrange
          = findDirectoryEnd_loop (reader_of fd) (Suc 0) [66560]"
        by (simp add: pass1 Let_def del: findDirectoryEnd_loop.simps)
      from block_cases [OF le2] show ?thesis
      proof
        assume "\<exists>K \<ge> ?m2. findSignatureInBlock (drop ?m2 fd) = int (K - ?m2) \<and> eocd_at fd K
          \<and> (\<forall>k. eocd_at fd k \<longrightarrow> k \<le> K)"
        then obtain K where K: "?m2 \<le> K" "findSignatureInBlock (drop ?m2 fd) = int (K - ?m2)"
          "eocd_at fd K" "\<forall>k. eocd_at fd k \<longrightarrow> k \<le> K" by blast
        have idx: "nat (int K - int ?m2) + ?m2 = K" using K(1) by linarith
        have "findDirectoryEnd_loop (reader_of fd) 0 offrange = Inr (1, int K, drop K fd)"
          using K(1) by (simp add: to2 pass2 K(2) Let_def idx del: findDirectoryEnd_loop.simps)
        moreover have "is_last_eocd fd K" using K(3,4) by (simp add: is_last_eocd_def)
        moreover have "K + 1024 < ?n"
        proof (rule ccontr)
          assume "\<not> K + 1024 < ?n"
          then have "?m1 \<le> K" by simp
          with none1 K(3) show False by blast
        qed
        moreover have "?n \<le> K + 66560" using K(1) by simp
        ultimately show ?thesis by blast
      next
        assume none2: "findSignatureInBlock (drop ?m2 fd) = - 1 \<and> (\<forall>k \<ge> ?m2. \<not> eocd_at fd k)"
        then have "findDirectoryEnd_loop (reader_of fd) 0 offrange = Inl NotValidZip"
          by (simp add: to2 pass2 Let_def del: findDirectoryEnd_loop.simps)
        moreover have "k + 66560 < ?n" if "eocd_at fd k" for k
        proof (rule ccontr)
          assume "\<not> k + 66560 < ?n"
          then have "?m2 \<le> k" by simp
          with none2 that show False by blast
        qed
        ultimately show ?thesis by blast
      qed
    qed
  qed
qed

text \<open>
  C4 (as amended). For a file whose \<open>size\<close> is the length of its bytes: when an end record
  lies in the last 1024 bytes, the first pass finds the record nearest to the end; when
  none lies there but one lies in the last \<open>65 * 1024\<close> bytes, the second pass finds the
  record nearest to the end; when none lies in the last \<open>65 * 1024\<close> bytes, the search and
  with it \<open>readDirectoryEnd\<close> fail with \<open>"zip: not a valid zip file"\<close>. The first component
  of the result is the index of the pass.
\<close>

theorem readDirectoryEnd_locates_eocd:
  "((\<exists>k. eocd_at fd k \<and> length fd \<le> k + 1024) \<longrightarrow>
      (\<exists>K. findDirectoryEnd_loop (reader_of fd) 0 offrange = Inr (0, int K, drop K fd)
            \<and> is_last_eocd fd K))
   \<and> (\<not> (\<exists>k. eocd_at fd k \<and> length fd \<le> k + 1024)
        \<and> (\<exists>k. eocd_at fd k \<and> length fd \<le> k + 65 * 1024) \<longrightarrow>
      (\<exists>K. findDirectoryEnd_loop (reader_of fd) 0 offrange = Inr (1, int K, drop K fd)
            \<and> is_last_eocd fd K))
   \<and> (\<not> (\<exists>k. eocd_at fd k \<and> length fd \<le> k + 65 * 1024) \<longrightarrow>
      findDirectoryEnd_loop (reader_of fd) 0 offrange = Inl NotValidZip
      \<and> readDirectoryEnd behind (reader_of fd) = Inl NotValidZip)"
proof -
  from findDirectoryEnd_loop_cases [of fd] show ?thesis
  proof (elim disjE exE conjE)
    assume a: "findDirectoryEnd_loop (reader_of fd) 0 offrange = Inl NotValidZip"
      "\<forall>k. eocd_at fd k \<longrightarrow> k + 66560 < length fd"
    then have "\<not> (\<exists>k. eocd_at fd k \<and> length fd \<le> k + 65 * 1024)"
      and "\<not> (\<exists>k. eocd_at fd k \<and> length fd \<le> k + 1024)" by fastforce+
    with a(1) show ?thesis by (simp add: readDirectoryEnd_def)
  next
    fix K
    assume a: "findDirectoryEnd_loop (reader_of fd) 0 offrange = Inr (0, int K, drop K fd)"
      "is_last_eocd fd K" "length fd \<le> K + 1024"
    then have "\<exists>k. eocd_at fd k \<and> length fd \<le> k + 1024"
      and "\<exists>k. eocd_at fd k \<and> length fd \<le> k + 65 * 1024"
      by (auto simp: is_last_eocd_def intro!: exI [of _ K])
    with a(1,2) show ?thesis by simp
  next
    fix K
    assume a: "findDirectoryEnd_loop (reader_of fd) 0 offrange = Inr (1, int K, drop K fd)"
      "is_last_eocd fd K" "K + 1024 < length fd" "length fd \<le> K + 66560"
    have "\<not> (\<exists>k. eocd_at fd k \<and> length fd \<le> k + 1024)"
    proof
      assume "\<exists>k. eocd_at fd k \<and> length fd \<le> k + 1024"
      then obtain k where "eocd_at fd k" "length fd \<le> k + 1024" by blast
      moreover from this a(2) have "k \<le> K" by (simp add: is_last_eocd_def)
      ultimately show False using a(3) by simp
    qed
    moreover have "\<exists>k. eocd_at fd k \<and> length fd \<le> k + 65 * 1024"
      using a(2,4) by (auto simp: is_last_eocd_def intro!: exI [of _ K])
    ultimately show ?thesis using a(1,2) by simp
  qed
qed

lemma length_far_sample: "length far_sample = 66000"
  by (simp add: far_sample_def eocd_sample_def)

lemma far_sample_nth:
  assumes "0 < k" and "k < 66000"
  shows "far_sample ! k \<noteq> 0x50"
proof (cases "k < 22")
  case True
  have "eocd_sample 1 0 0 0 0 0 = 0x50 # tl (eocd_sample 1 0 0 0 0 0)"
    by (simp add: eocd_sample_def)
  then have "eocd_sample 1 0 0 0 0 0 ! k = tl (eocd_sample 1 0 0 0 0 0) ! (k - 1)"
    using assms(1) by (metis nth_Cons_pos)
  moreover have "tl (eocd_sample 1 0 0 0 0 0) ! (k - 1) \<in> set (tl (eocd_sample 1 0 0 0 0 0))"
    using True assms(1) by (intro nth_mem) (simp add: eocd_sample_def)
  moreover have "0x50 \<notin> set (tl (eocd_sample 1 0 0 0 0 0))"
    by (simp add: eocd_sample_def)
  ultimately have "eocd_sample 1 0 0 0 0 0 ! k \<noteq> 0x50" by metis
  with True show ?thesis by (simp add: far_sample_def nth_append length_eocd_sample)
next
  case False
  with assms(2) show ?thesis
    by (simp add: far_sample_def nth_append length_eocd_sample)
qed

lemma eocd_at_far_sample: "eocd_at far_sample k \<longleftrightarrow> k = 0"
proof
  assume e: "eocd_at far_sample k"
  show "k = 0"
  proof (rule ccontr)
    assume "k \<noteq> 0"
    moreover from e have "k < 66000" "far_sample ! k = 0x50"
      by (simp_all add: eocd_at_def sig_ok_def directoryEndLen_def length_far_sample)
    ultimately show False using far_sample_nth [of k] by simp
  qed
next
  assume "k = 0"
  moreover have "sig_ok far_sample 0"
    by (simp add: sig_ok_def directoryEndLen_def far_sample_def eocd_sample_def)
  ultimately show "eocd_at far_sample k"
    by (simp add: eocd_at_def directoryEndLen_def length_far_sample)
qed

lemma sig_positions_far_sample: "sig_positions far_sample = [0]"
proof -
  let ?P = "\<lambda>k. take 4 (drop k far_sample) = [0x50, 0x4b, 0x05, 0x06 :: u8]"
  have "far_sample ! k = 0x50" if "?P k" "k < 66000" for k
  proof -
    from that(2) have "take 4 (drop k far_sample) ! 0 = far_sample ! k"
      by (simp add: length_far_sample)
    with that(1) show ?thesis by simp
  qed
  then have none: "\<forall>k \<in> set [Suc 0..<66000]. \<not> ?P k"
    using far_sample_nth by fastforce
  have first: "?P 0" by (simp add: far_sample_def eocd_sample_def)
  have "[0..<66000] = 0 # [Suc 0..<66000]" by (rule upt_conv_Cons) simp
  then have "filter ?P [0..<66000] = 0 # filter ?P [Suc 0..<66000]"
    using first by simp
  also have "filter ?P [Suc 0..<66000] = []"
    using none by (simp only: filter_empty_conv)
  finally show ?thesis by (simp add: sig_positions_def length_far_sample)
qed

lemma findDirectoryEnd_loop_far_sample:
  "findDirectoryEnd_loop (reader_of far_sample) 0 offrange = Inr (1, 0, far_sample)"
  using findDirectoryEnd_loop_cases [of far_sample]
  by (auto simp: is_last_eocd_def eocd_at_far_sample length_far_sample)

lemma eocd_at_toc_sample: "eocd_at toc_sample 78"
proof -
  have "sig_ok toc_sample 78"
    unfolding toc_sample_def
    by (subst sig_ok_drop) (simp_all add: length_eocd_sample sig_ok_eocd_sample)
  then show ?thesis
    by (simp add: eocd_at_def directoryEndLen_def toc_sample_def length_eocd_sample)
qed

lemma eocd_at_zeros: "\<not> eocd_at (replicate n 0) k"
  by (auto simp: eocd_at_def sig_ok_def directoryEndLen_def)

theorem readDirectoryEnd_locates_eocd_witness:
  "(\<exists>K. findDirectoryEnd_loop (reader_of toc_sample) 0 offrange
            = Inr (0, int K, drop K toc_sample) \<and> is_last_eocd toc_sample K)
   \<and> (\<exists>K. findDirectoryEnd_loop (reader_of far_sample) 0 offrange
            = Inr (1, int K, drop K far_sample) \<and> is_last_eocd far_sample K)
   \<and> findDirectoryEnd_loop (reader_of (replicate 30 0)) 0 offrange = Inl NotValidZip
   \<and> readDirectoryEnd [] (reader_of (replicate 30 0)) = Inl NotValidZip"
proof -
  have h1: "\<exists>k. eocd_at toc_sample k \<and> length toc_sample \<le> k + 1024"
    using eocd_at_toc_sample
    by (intro exI [of _ 78]) (simp add: toc_sample_def length_eocd_sample)
  have h2: "\<not> (\<exists>k. eocd_at far_sample k \<and> length far_sample \<le> k + 1024)
      \<and> (\<exists>k. eocd_at far_sample k \<and> length far_sample \<le> k + 65 * 1024)"
    by (simp add: eocd_at_far_sample length_far_sample)
  have h3: "\<not> (\<exists>k. eocd_at (replicate 30 0) k \<and> length (replicate 30 (0 :: u8)) \<le> k + 65 * 1024)"
    by (simp add: eocd_at_zeros)
  from readDirectoryEnd_locates_eocd [of toc_sample] h1
  have a: "\<exists>K. findDirectoryEnd_loop (reader_of toc_sample) 0 offrange
            = Inr (0, int K, drop K toc_sample) \<and> is_last_eocd toc_sample K" by blast
  from readDirectoryEnd_locates_eocd [of far_sample] h2
  have b: "\<exists>K. findDirectoryEnd_loop (reader_of far_sample) 0 offrange
            = Inr (1, int K, drop K far_sample) \<and> is_last_eocd far_sample K" by blast
  from readDirectoryEnd_locates_eocd [of "replicate 30 0"] h3
  have c: "findDirectoryEnd_loop (reader_of (replicate 30 0)) 0 offrange = Inl NotValidZip
      \<and> readDirectoryEnd [] (reader_of (replicate 30 0)) = Inl NotValidZip" by blast
  from a b c show ?thesis by blast
qed

text \<open>
  C4 as stated fails between 64 KiB and 65 KiB: in the file of 66000 bytes the signature
  stands at offset 0 only, 66000 bytes before the end and so not within the last 65536
  bytes, and the second pass finds it; \<open>readDirectoryEnd\<close> decodes the record. No field
  of the record is at its sentinel, so that no Zip64 record is read, and \<open>behind\<close> is
  given as empty.
\<close>

theorem readDirectoryEnd_beyond_64K_counterexample:
  "length far_sample = 66000
   \<and> sig_positions far_sample = [0]
   \<and> findDirectoryEnd_loop (reader_of far_sample) 0 offrange = Inr (1, 0, far_sample)
   \<and> readDirectoryEnd [] (reader_of far_sample)
       = Inr \<lparr>diskNbr = 0, dirDiskNbr = 0, dirRecordsThisDisk = 1, directoryRecords = 1,
              directorySize = 0, directoryOffset = 0, commentLen = 0, comment = []\<rparr>"
proof -
  have "decodeDirectoryEnd [] (reader_of far_sample) 0 far_sample
       = Inr \<lparr>diskNbr = 0, dirDiskNbr = 0, dirRecordsThisDisk = 1, directoryRecords = 1,
              directorySize = 0, directoryOffset = 0, commentLen = 0, comment = []\<rparr>"
    by (simp add: decodeDirectoryEnd_def reader_of_def length_far_sample)
      (simp add: far_sample_def eocd_sample_def Discard_def Read16_def Read32_def le16_def
        le32_def)
  then show ?thesis
    by (simp add: length_far_sample sig_positions_far_sample findDirectoryEnd_loop_far_sample
        readDirectoryEnd_def)
qed

section \<open>Results about a central directory header\<close>

lemma ntfs_attrs_frame:
  "sizes_of (ntfs_attrs fb st) = sizes_of st
   \<and> needUSize (ntfs_attrs fb st) = needUSize st
   \<and> needSize (ntfs_attrs fb st) = needSize st
   \<and> needOffset (ntfs_attrs fb st) = needOffset st"
proof (induction fb st rule: ntfs_attrs.induct)
  case (1 fb st)
  show ?case
  proof (cases "length fb < 4 \<or> length (drop 4 fb) < unat (le16 (drop 2 fb))
                 \<or> le16 fb \<noteq> 1 \<or> le16 (drop 2 fb) \<noteq> 24")
    case True
    then show ?thesis by (subst (1 2 3 4) ntfs_attrs.simps) (auto simp: Let_def)
  next
    case False
    with "1.IH" [OF _ refl refl] show ?thesis
      by (subst (1 2 3 4) ntfs_attrs.simps) (simp add: Let_def sizes_of_def)
  qed
qed

lemma extra_field_no_need:
  assumes "no_need st"
  shows "\<exists>st'. extra_field tag fb st = Inr st' \<and> no_need st' \<and> sizes_of st' = sizes_of st"
  using assms ntfs_attrs_frame [of "Discard 4 fb" st]
  by (auto simp: extra_field_def no_need_def sizes_of_def zip64_extra_def zip64_usize_def
      zip64_size_def zip64_offset_def Let_def split: prod.splits)

lemma parse_extra_no_need:
  assumes "no_need st"
  shows "\<exists>st'. parse_extra ex st = Inr st' \<and> no_need st' \<and> sizes_of st' = sizes_of st"
  using assms
proof (induction ex st rule: parse_extra.induct)
  case (1 ex st)
  show ?case
  proof (cases "length ex < 4 \<or> length (drop 4 ex) < unat (le16 (drop 2 ex))")
    case True
    with "1.prems" show ?thesis by (subst parse_extra.simps) (auto simp: Let_def)
  next
    case False
    let ?fb = "take (unat (le16 (drop 2 ex))) (drop 4 ex)"
    from extra_field_no_need [OF "1.prems", of "le16 ex" ?fb]
    obtain st1 where st1: "extra_field (le16 ex) ?fb st = Inr st1" "no_need st1"
      "sizes_of st1 = sizes_of st" by blast
    from "1.IH" [OF _ refl refl _ st1(1) st1(2)] False
    obtain st' where "parse_extra (drop (unat (le16 (drop 2 ex))) (drop 4 ex)) st1 = Inr st'"
      "no_need st'" "sizes_of st' = sizes_of st1" by auto
    with False st1 show ?thesis by (subst parse_extra.simps) (simp add: Let_def)
  qed
qed

lemma zip64_extra_cases:
  "zip64_extra fb st =
     (if length fb < 8 * (of_bool (needUSize st) + of_bool (needSize st) + of_bool (needOffset st))
      then Inl NotValidZip
      else Inr (st\<lparr>needUSize := False, needSize := False, needOffset := False,
                 xfile := (xfile st)
                   \<lparr>uncompressedSize :=
                      (if needUSize st then le64 fb else uncompressedSize (xfile st)),
                    compressedSize :=
                      (if needSize st then le64 (drop (8 * of_bool (needUSize st)) fb)
                       else compressedSize (xfile st)),
                    position :=
                      (if needOffset st
                       then le64 (drop (8 * (of_bool (needUSize st) + of_bool (needSize st))) fb)
                       else position (xfile st))\<rparr>\<rparr>))"
  by (cases "needUSize st"; cases "needSize st"; cases "needOffset st")
    (auto simp: zip64_extra_def zip64_usize_def zip64_size_def zip64_offset_def Read64_def
      Let_def)

lemma le16_size_bytes:
  assumes "n < 65536"
  shows "unat (le16 ([of_nat (n mod 256), of_nat (n div 256)] @ rest)) = n"
proof -
  have a: "unat (of_nat (n mod 256) :: u8) = n mod 256"
    by (simp add: unat_of_nat)
  have b: "unat (of_nat (n div 256) :: u8) = n div 256"
    using assms by (simp add: unat_of_nat)
  have "le_nat [of_nat (n mod 256), of_nat (n div 256)] = n"
    by (simp add: a b)
  then show ?thesis using assms by (simp add: le16_def unat_of_nat)
qed

lemma parse_extra_zip64_block:
  assumes "length fb < 65536"
  shows "parse_extra (zip64_block fb @ rest) st =
           (case zip64_extra fb st of Inl e \<Rightarrow> Inl e | Inr st' \<Rightarrow> parse_extra rest st')"
proof -
  define ex where "ex = zip64_block fb @ rest"
  have tag: "le16 ex = zip64ExtraID"
    by (simp add: ex_def zip64_block_def le16_def zip64ExtraID_def)
  have "drop 2 ex = [of_nat (length fb mod 256), of_nat (length fb div 256)] @ fb @ rest"
    by (simp add: ex_def zip64_block_def)
  then have sz: "unat (le16 (drop 2 ex)) = length fb"
    using le16_size_bytes [OF assms] by simp
  have d4: "drop 4 ex = fb @ rest" by (simp add: ex_def zip64_block_def)
  have len: "\<not> length ex < 4" by (simp add: ex_def zip64_block_def)
  have "parse_extra ex st =
           (case zip64_extra fb st of Inl e \<Rightarrow> Inl e | Inr st' \<Rightarrow> parse_extra rest st')"
    by (subst parse_extra.simps) (simp add: len tag sz d4 Let_def extra_field_def cong: sum.case_cong)
  then show ?thesis by (simp add: ex_def)
qed

lemma parse_extra_block:
  assumes "length fb < 65536"
  shows "parse_extra (extra_block t0 t1 fb @ rest) st =
           (case extra_field (le16 [t0, t1]) fb st of
              Inl e \<Rightarrow> Inl e
            | Inr st' \<Rightarrow> parse_extra rest st')"
proof -
  define ex where "ex = extra_block t0 t1 fb @ rest"
  have tag: "le16 ex = le16 [t0, t1]"
    by (simp add: ex_def extra_block_def le16_def)
  have "drop 2 ex = [of_nat (length fb mod 256), of_nat (length fb div 256)] @ fb @ rest"
    by (simp add: ex_def extra_block_def)
  then have sz: "unat (le16 (drop 2 ex)) = length fb"
    using le16_size_bytes [OF assms] by simp
  have d4: "drop 4 ex = fb @ rest" by (simp add: ex_def extra_block_def)
  have len: "\<not> length ex < 4" by (simp add: ex_def extra_block_def)
  have "parse_extra ex st =
           (case extra_field (le16 [t0, t1]) fb st of
              Inl e \<Rightarrow> Inl e
            | Inr st' \<Rightarrow> parse_extra rest st')"
    by (subst parse_extra.simps) (simp add: len tag sz d4 Let_def cong: sum.case_cong)
  then show ?thesis by (simp add: ex_def)
qed

lemma extra_field_other:
  assumes "tag \<noteq> zip64ExtraID"
  shows "\<exists>st'. extra_field tag fb st = Inr st' \<and> same_needs st' st"
  using assms ntfs_attrs_frame [of "Discard 4 fb" st]
  by (auto simp: extra_field_def same_needs_def sizes_of_def Let_def split: prod.splits)

lemma parse_extra_blocks:
  assumes "other_fields flds"
  shows "\<exists>st'. parse_extra (extra_blocks flds @ rest) st = parse_extra rest st'
               \<and> same_needs st' st"
  using assms
proof (induction flds arbitrary: st)
  case Nil
  then show ?case by (auto simp: extra_blocks_def same_needs_def)
next
  case (Cons f flds)
  obtain t0 t1 fb where f: "f = (t0, t1, fb)" by (cases f) auto
  from Cons.prems f have tag: "le16 [t0, t1] \<noteq> zip64ExtraID" and len: "length fb < 65536"
    and others: "other_fields flds"
    by (simp_all add: other_fields_def)
  from extra_field_other [OF tag, of fb st]
  obtain st1 where st1: "extra_field (le16 [t0, t1]) fb st = Inr st1" "same_needs st1 st"
    by blast
  from Cons.IH [OF others, of st1]
  obtain st' where st': "parse_extra (extra_blocks flds @ rest) st1 = parse_extra rest st'"
    "same_needs st' st1" by blast
  have "extra_blocks (f # flds) @ rest = extra_block t0 t1 fb @ (extra_blocks flds @ rest)"
    by (simp add: extra_blocks_def f)
  then have "parse_extra (extra_blocks (f # flds) @ rest) st = parse_extra rest st'"
    by (simp add: parse_extra_block [OF len] st1(1) st'(1))
  moreover from st1(2) st'(2) have "same_needs st' st" by (simp add: same_needs_def)
  ultimately show ?case by blast
qed

text \<open>
  C6 (as amended). Let the extra data of a header be a sequence of complete fields other
  than Zip64 fields, then a complete Zip64 field of payload \<open>fb\<close>, then anything, and
  let \<open>n\<close> of the fixed fields uncompressed size, compressed size and offset hold
  \<open>0xFFFFFFFF\<close>. With fewer than \<open>8 * n\<close> bytes of payload the header is rejected
  (\<open>"zip: not a valid zip file"\<close>). Otherwise the header is decoded, whatever follows the
  Zip64 field; each field at its sentinel takes the next 8 bytes of the payload as its
  value, in the order uncompressed size, compressed size, offset, and a field not at its
  sentinel keeps its value and takes no bytes.
\<close>

theorem finish_header_zip64:
  assumes "extra_of h var = extra_blocks flds @ zip64_block fb @ rest"
    and "other_fields flds" and "length fb < 65536"
  shows "(length fb < 8 * n_sentinel h \<longrightarrow> finish_header h var = Inl NotValidZip)
     \<and> (8 * n_sentinel h \<le> length fb \<longrightarrow>
          (\<exists>f. finish_header h var = Inr f
             \<and> uncompressedSize f =
                 (if usize_sentinel h then le64 fb else uncompressedSize (fx_file h))
             \<and> compressedSize f =
                 (if csize_sentinel h then le64 (drop (8 * of_bool (usize_sentinel h)) fb)
                  else compressedSize (fx_file h))
             \<and> position f =
                 (if offset_sentinel h
                  then le64 (drop (8 * (of_bool (usize_sentinel h) + of_bool (csize_sentinel h))) fb)
                  else position (fx_file h))))"
proof -
  define f1 where "f1 = (fx_file h)
            \<lparr>name := take (unat (filenameLen h)) var,
             extra := take (unat (extraLen h)) (drop (unat (filenameLen h)) var),
             file_comment := take (unat (fx_commentLen h))
                 (drop (unat (filenameLen h) + unat (extraLen h)) var),
             utf8 := (flags (fx_file h) AND 0x800 \<noteq> 0)\<rparr>"
  define st00 where "st00 = \<lparr>needUSize = usize_sentinel h, needSize = csize_sentinel h,
                 needOffset = offset_sentinel h, xfile = f1, modified = Time_default\<rparr>"
  define tail where "tail = (\<lambda>st :: extra_state.
             (let f2 = (xfile st)\<lparr>time := FromDosDateTime (dosDate h) (dosTime h)\<rparr>;
                  f3 = (if ToUnixSeconds (modified st) \<noteq> 0 then f2\<lparr>time := modified st\<rparr> else f2)
              in if needSize st \<or> needOffset st then Inl NotValidZip else Inr f3))"
  have fin: "finish_header h var =
      (case parse_extra (extra_blocks flds @ zip64_block fb @ rest) st00 of
         Inl e \<Rightarrow> Inl e | Inr st \<Rightarrow> tail st)"
    using assms(1)
    by (simp add: finish_header_def Let_def f1_def st00_def tail_def extra_of_def
        usize_sentinel_def csize_sentinel_def offset_sentinel_def SizeMin_def OffsetMin_def
        cong: sum.case_cong)
  from parse_extra_blocks [OF assms(2), of "zip64_block fb @ rest" st00]
  obtain st0 where pre: "parse_extra (extra_blocks flds @ zip64_block fb @ rest) st00
      = parse_extra (zip64_block fb @ rest) st0" and same: "same_needs st0 st00"
    by blast
  have step: "parse_extra (zip64_block fb @ rest) st0 =
      (case zip64_extra fb st0 of Inl e \<Rightarrow> Inl e | Inr st' \<Rightarrow> parse_extra rest st')"
    by (rule parse_extra_zip64_block) (rule assms(3))
  from same have needs: "needUSize st0 = usize_sentinel h" "needSize st0 = csize_sentinel h"
    "needOffset st0 = offset_sentinel h"
    and sizes: "uncompressedSize (xfile st0) = uncompressedSize (fx_file h)"
    "compressedSize (xfile st0) = compressedSize (fx_file h)"
    "position (xfile st0) = position (fx_file h)"
    by (simp_all add: same_needs_def st00_def sizes_of_def f1_def)
  have n: "of_bool (needUSize st0) + of_bool (needSize st0) + of_bool (needOffset st0)
             = n_sentinel h"
    by (simp add: needs n_sentinel_def)
  show ?thesis
  proof (cases "length fb < 8 * n_sentinel h")
    case True
    then have "zip64_extra fb st0 = Inl NotValidZip"
      by (simp add: zip64_extra_cases n)
    with True show ?thesis by (simp add: fin pre step)
  next
    case False
    define st1 where "st1 = st0\<lparr>needUSize := False, needSize := False, needOffset := False,
                 xfile := (xfile st0)
                   \<lparr>uncompressedSize :=
                      (if needUSize st0 then le64 fb else uncompressedSize (xfile st0)),
                    compressedSize :=
                      (if needSize st0 then le64 (drop (8 * of_bool (needUSize st0)) fb)
                       else compressedSize (xfile st0)),
                    position :=
                      (if needOffset st0
                       then le64 (drop (8 * (of_bool (needUSize st0) + of_bool (needSize st0))) fb)
                       else position (xfile st0))\<rparr>\<rparr>"
    from False have z: "zip64_extra fb st0 = Inr st1"
      unfolding zip64_extra_cases n st1_def by simp
    have nn: "no_need st1" by (simp add: st1_def no_need_def)
    have sz1: "sizes_of st1 =
         (if usize_sentinel h then le64 fb else uncompressedSize (fx_file h),
          if csize_sentinel h then le64 (drop (8 * of_bool (usize_sentinel h)) fb)
          else compressedSize (fx_file h),
          if offset_sentinel h
          then le64 (drop (8 * (of_bool (usize_sentinel h) + of_bool (csize_sentinel h))) fb)
          else position (fx_file h))"
      by (simp add: st1_def sizes_of_def needs sizes)
    note st1 = z nn sz1
    from parse_extra_no_need [OF st1(2), of rest]
    obtain st2 where st2: "parse_extra rest st1 = Inr st2" "no_need st2"
      "sizes_of st2 = sizes_of st1" by blast
    have "finish_header h var = tail st2"
      by (simp add: fin pre step st1(1) st2(1))
    moreover from st2(2) obtain f where f: "tail st2 = Inr f"
      "(uncompressedSize f, compressedSize f, position f) = sizes_of st2"
      by (auto simp: tail_def Let_def no_need_def sizes_of_def)
    ultimately have "finish_header h var = Inr f" by simp
    moreover from f(2) st2(3) st1(3) have
      "uncompressedSize f =
                 (if usize_sentinel h then le64 fb else uncompressedSize (fx_file h))"
      "compressedSize f =
                 (if csize_sentinel h then le64 (drop (8 * of_bool (usize_sentinel h)) fb)
                  else compressedSize (fx_file h))"
      "position f =
                 (if offset_sentinel h
                  then le64 (drop (8 * (of_bool (usize_sentinel h) + of_bool (csize_sentinel h))) fb)
                  else position (fx_file h))"
      by simp_all
    ultimately show ?thesis using False by blast
  qed
qed

theorem finish_header_zip64_witness:
  "extra_of (h_sample 24) ([0x61] @ unix_extra_sample @ zip64_block [0, 0, 0, 0, 1, 0, 0, 0])
     = extra_blocks [(0x0d, 0, drop 4 unix_extra_sample)]
       @ zip64_block [0, 0, 0, 0, 1, 0, 0, 0] @ []
   \<and> other_fields [(0x0d, 0, drop 4 unix_extra_sample)]
   \<and> n_sentinel (h_sample 24) = 1
   \<and> (\<exists>f. finish_header (h_sample 24)
               ([0x61] @ unix_extra_sample @ zip64_block [0, 0, 0, 0, 1, 0, 0, 0]) = Inr f
          \<and> uncompressedSize f = 0x100000000 \<and> compressedSize f = 0x10 \<and> position f = 0)
   \<and> extra_of (h_sample 7) ([0x61] @ zip64_block [1, 2, 3])
     = extra_blocks [] @ zip64_block [1, 2, 3] @ []
   \<and> other_fields []
   \<and> finish_header (h_sample 7) ([0x61] @ zip64_block [1, 2, 3]) = Inl NotValidZip"
proof -
  have e1: "extra_of (h_sample 24) ([0x61] @ unix_extra_sample @ zip64_block [0, 0, 0, 0, 1, 0, 0, 0])
     = extra_blocks [(0x0d, 0, drop 4 unix_extra_sample)]
       @ zip64_block [0, 0, 0, 0, 1, 0, 0, 0] @ []"
    by (simp add: extra_of_def h_sample_def zip64_block_def extra_blocks_def extra_block_def
        unix_extra_sample_def)
  have o1: "other_fields [(0x0d, 0, drop 4 unix_extra_sample)]"
    by (simp add: other_fields_def le16_def zip64ExtraID_def unix_extra_sample_def)
  have e2: "extra_of (h_sample 7) ([0x61] @ zip64_block [1, 2, 3])
     = extra_blocks [] @ zip64_block [1, 2, 3] @ []"
    by (simp add: extra_of_def h_sample_def zip64_block_def extra_blocks_def)
  have o2: "other_fields []" by (simp add: other_fields_def)
  have n: "n_sentinel (h_sample k) = 1" "usize_sentinel (h_sample k)"
    "\<not> csize_sentinel (h_sample k)" "\<not> offset_sentinel (h_sample k)" for k
    by (simp_all add: n_sentinel_def usize_sentinel_def csize_sentinel_def offset_sentinel_def
        h_sample_def default_File_def)
  have v: "le64 [0, 0, 0, 0, 1, 0, 0, 0] = 0x100000000"
    by (simp add: le64_def)
  from finish_header_zip64 [OF e1 o1] finish_header_zip64 [OF e2 o2] e1 e2 o1 o2
  show ?thesis
    by (simp add: n v) (simp add: h_sample_def default_File_def)
qed

text \<open>
  The same on the bytes of a header: uncompressed size \<open>0xFFFFFFFF\<close> and a Zip64 field with
  the value \<open>2\<^sup>3\<^sup>2\<close>.
\<close>

lemma readDirectoryHeader_cdh_sample:
  assumes "length usize = 4" and "length ex < 256"
  shows "readDirectoryHeader (cdh_sample usize ex) default_File =
           (case finish_header
                   \<lparr>fx_file = default_File\<lparr>cversion := 0x031e, rversion := 0x14,
                                compressedSize := 0x10, uncompressedSize := ucast (le32 usize)\<rparr>,
                    dosTime = 0, dosDate = 0x5221, filenameLen = 1,
                    extraLen = of_nat (length ex), fx_commentLen = 0\<rparr>
                   ([0x61] @ ex) of
              Inl e \<Rightarrow> Inl e
            | Inr f \<Rightarrow> Inr (f, []))"
proof -
  obtain a b c d where u: "usize = [a, b, c, d]"
    using assms(1) by (auto simp: length_Suc_conv eval_nat_numeral)
  have n: "unat (of_nat (length ex) :: u8) = length ex"
    using assms(2) by (simp add: unat_of_nat)
  have l16: "unat (of_nat (length ex) :: u16) = length ex"
    using assms(2) by (simp add: unat_of_nat)
  show ?thesis
    unfolding u
    by (simp add: readDirectoryHeader_def cdh_sample_def br_ReadFull_def directoryHeaderLen_def
        decode_fixed_def Read16_def Read32_def Discard_def le16_def le32_def
        directoryHeaderSignature_def default_File_def n l16)
qed

lemma readDirectoryHeader_zip64_sample:
  "map_sum id (uncompressedSize \<circ> fst)
       (readDirectoryHeader
          (cdh_sample [0xFF, 0xFF, 0xFF, 0xFF] (zip64_block [0, 0, 0, 0, 1, 0, 0, 0]))
          default_File)
     = Inr 0x100000000"
  by (subst readDirectoryHeader_cdh_sample)
    (simp_all add: zip64_block_def finish_header_def Let_def parse_extra.simps extra_field_def
      zip64ExtraID_def zip64_extra_def zip64_usize_def zip64_size_def zip64_offset_def
      Read64_def le16_def le32_def le64_def SizeMin_def OffsetMin_def default_File_def
      Time_default_def ToUnixSeconds_def)

text \<open>
  C6 as stated fails for a Zip64 field that does not lie complete in the extra data. The
  header has its uncompressed size at \<open>0xFFFFFFFF\<close> and an extra field of tag \<open>0x0001\<close>
  that declares 8 bytes of payload and has 4: the loop ends at
  \<open>if (extra.Size() < fieldSize) break\<close>, the last test looks at \<open>needSize\<close> and
  \<open>needOffset\<close> only, and the header is decoded with the uncompressed size \<open>0xFFFFFFFF\<close>.
\<close>

theorem readDirectoryHeader_truncated_zip64_counterexample:
  "map_sum id (uncompressedSize \<circ> fst)
       (readDirectoryHeader
          (cdh_sample [0xFF, 0xFF, 0xFF, 0xFF] [0x01, 0, 8, 0, 0, 0, 0, 1])
          default_File)
     = Inr 0xFFFFFFFF"
  by (subst readDirectoryHeader_cdh_sample)
    (simp_all add: finish_header_def Let_def parse_extra.simps
      le16_def le32_def SizeMin_def OffsetMin_def default_File_def
      Time_default_def ToUnixSeconds_def)

lemma FromDosDateTime_sample: "FromDosDateTime 0x5221 0 = 1609459200"
  by (simp add: FromDosDateTime_def days_from_civil_def Let_def)

lemma parse_extra_unix_sample:
  "parse_extra unix_extra_sample st
     = Inr (st\<lparr>xfile := (xfile st)\<lparr>time := 1000000000\<rparr>\<rparr>)"
  by (simp add: parse_extra.simps unix_extra_sample_def Let_def extra_field_def le16_def le32_def Read32_def
      Discard_def FromUnixSeconds_def zip64ExtraID_def ntfsExtraID_def unixExtraID_def)

lemma parse_extra_exttime_sample:
  "parse_extra exttime_extra_sample st = Inr (st\<lparr>modified := 1000000000\<rparr>)"
  by (simp add: parse_extra.simps exttime_extra_sample_def Let_def extra_field_def le16_def le32_def Read32_def
      Pick_def FromUnixSeconds_def zip64ExtraID_def ntfsExtraID_def unixExtraID_def
      infoZipUnixExtraID_def extTimeExtraID_def)

text \<open>
  C2. The branch for the tags \<open>0x000d\<close> and \<open>0x5855\<close> stores the modification time in
  \<open>file.time\<close>, which the line after the loop overwrites with the DOS date and time;
  \<open>modified\<close>, the variable that line then looks at, is set by the NTFS and the
  extended-timestamp branches only. A header with DOS date 2021-01-01 and a Unix extra
  field with modification time 1000000000 is decoded with the DOS timestamp; the same
  header with that time in an extended-timestamp field is decoded with 1000000000.
\<close>

theorem readDirectoryHeader_unix_time:
  "map_sum id (time \<circ> fst)
       (readDirectoryHeader (cdh_sample [0, 0, 0, 0] unix_extra_sample) default_File)
     = Inr (FromDosDateTime 0x5221 0)
   \<and> FromDosDateTime 0x5221 0 = 1609459200
   \<and> map_sum id (time \<circ> fst)
       (readDirectoryHeader (cdh_sample [0, 0, 0, 0] exttime_extra_sample) default_File)
     = Inr 1000000000"
proof -
  have lu: "length unix_extra_sample = 12" and le: "length exttime_extra_sample = 9"
    by (simp_all add: unix_extra_sample_def exttime_extra_sample_def)
  have a: "map_sum id (time \<circ> fst)
       (readDirectoryHeader (cdh_sample [0, 0, 0, 0] unix_extra_sample) default_File)
     = Inr (FromDosDateTime 0x5221 0)"
    by (subst readDirectoryHeader_cdh_sample)
      (simp_all add: lu finish_header_def Let_def parse_extra_unix_sample SizeMin_def
        OffsetMin_def default_File_def Time_default_def ToUnixSeconds_def le32_def)
  have b: "map_sum id (time \<circ> fst)
       (readDirectoryHeader (cdh_sample [0, 0, 0, 0] exttime_extra_sample) default_File)
     = Inr 1000000000"
    by (subst readDirectoryHeader_cdh_sample)
      (simp_all add: le finish_header_def Let_def parse_extra_exttime_sample SizeMin_def
        OffsetMin_def default_File_def Time_default_def ToUnixSeconds_def le32_def)
  from a b show ?thesis by (simp add: FromDosDateTime_sample)
qed

section \<open>Results about the export table\<close>

lemma inside_section_strictly_within:
  assumes "inside_section a ds"
  shows "strictly_within a ds"
proof -
  have "unat (VirtualAddress ds + VirtualSize ds) \<le> unat (VirtualAddress ds) + unat (VirtualSize ds)"
    by (simp add: unat_word_ariths)
  with assms show ?thesis
    by (simp add: inside_section_def strictly_within_def word_less_nat_alt)
qed


lemma uint_add_word_of_int:
  "uint (a + word_of_int k :: u32) = (uint a + k) mod 2 ^ 32"
  by (simp add: uint_word_ariths uint_word_of_int take_bit_eq_mod mod_add_right_eq)

lemma function_offset_eq:
  "int (function_offset ied ds ordinal) =
     (uint (AddressOfFunctions ied - VirtualAddress ds)
      + 4 * (uint ordinal - uint (ucast (Base ied) :: u16))) mod 2 ^ 32"
  unfolding function_offset_def
  by (simp only: uint_nat [symmetric] uint_add_word_of_int mult.commute)








lemma size_t_sub_le:
  assumes "b \<le> a"
  shows "size_t_sub a b \<le> a - b"
proof -
  from assms have "0 \<le> int a - int b" by simp
  then have "(int a - int b) mod 2 ^ 64 \<le> int a - int b"
    by (rule zmod_le_nonneg_dividend)
  then show ?thesis using assms by (simp add: size_t_sub_def)
qed



lemma function_read_inside:
  assumes "inside_section (AddressOfFunctions ied) ds"
    and "functions_guard ied sdata ds ordinal"
    and "table_in_data (AddressOfFunctions ied) ds sdata"
    and "ucast (Base ied) \<le> ordinal"
  shows "function_offset ied ds ordinal + 4 \<le> length sdata"
proof -
  define L where "L = unat (AddressOfFunctions ied - VirtualAddress ds)"
  define k where "k = uint ordinal - uint (ucast (Base ied) :: u16)"
  from assms(1,3) have L: "L \<le> length sdata"
    by (simp add: table_in_data_def L_def)
  from assms(2) size_t_sub_le [OF L] have g: "unat ordinal * 4 + 4 < length sdata - L"
    by (simp add: functions_guard_def L_def)
  from assms(4) have k: "0 \<le> k" by (simp add: word_le_def k_def)
  have kle: "k \<le> int (unat ordinal)"
    unfolding k_def by (simp only: uint_nat [symmetric]) simp
  have "int (function_offset ied ds ordinal) = (int L + 4 * k) mod 2 ^ 32"
    unfolding L_def k_def by (simp only: function_offset_eq uint_nat [symmetric])
  also have "\<dots> \<le> int L + 4 * k"
    using k by (intro zmod_le_nonneg_dividend) simp
  finally have "int (function_offset ied ds ordinal) \<le> int L + 4 * int (unat ordinal)"
    using kle by linarith
  then have "function_offset ied ds ordinal \<le> L + 4 * unat ordinal" by linarith
  with g L show ?thesis by linarith
qed



lemma functions_reads_mem:
  "(t, off, w) \<in> set (functions_reads ied ds sdata es) \<longleftrightarrow>
     inside_section (AddressOfFunctions ied) ds \<and> t = Functions \<and> w = 4
     \<and> (\<exists>e \<in> set es. functions_guard ied sdata ds (Ordinal e)
            \<and> off = function_offset ied ds (Ordinal e))"
  by (auto simp: functions_reads_def)

lemma functions_reads_ok:
  assumes "table_in_data (AddressOfFunctions ied) ds sdata"
    and "(t, off, w) \<in> set (functions_reads ied ds sdata es)"
    and "\<forall>e \<in> set es. ucast (Base ied) \<le> Ordinal e"
  shows "off + w \<le> length sdata \<and> validated t ied ds"
proof -
  from assms(2) obtain e where e: "inside_section (AddressOfFunctions ied) ds"
    "t = Functions" "w = 4" "e \<in> set es" "functions_guard ied sdata ds (Ordinal e)"
    "off = function_offset ied ds (Ordinal e)"
    by (auto simp: functions_reads_mem)
  from assms(3) e(4) have "ucast (Base ied) \<le> Ordinal e" by blast
  from function_read_inside [OF e(1) e(5) assms(1) this] e show ?thesis
    by (simp add: validated_def inside_section_strictly_within)
qed

lemma loops_nth:
  assumes "i < unat (NumberOfNames ied)"
  shows "fst (LookupExports_loops c16 c32 ied ds sdata) ! i
         = functions_loop c32 ied ds sdata
             (names_loop c32 ied ds sdata
                (ordinals_loop c16 ied ds sdata
                   (replicate (unat (NumberOfNames ied)) default_ExportedSymbol))) ! i"
  by (simp add: LookupExports_loops_def Let_def)




















end
